theory Spec2Isabelle
  imports Complex_Main "HOL-Library.AList"
begin

section \<open>Python text\<close>

text \<open>
  A Python \<open>str\<close> is a sequence of Unicode code points, and \<open>str.strip\<close> and the
  regular expressions of \<open>app.py\<close> work on code points, not on bytes. A text is
  therefore a list of code points; \<open>ascii\<close> reads an ASCII literal as such a list.
  The grade marks and column labels of \<open>app.py\<close> that are written in Chinese appear
  below as their code points.
\<close>

type_synonym pystr = "nat list"

definition ascii :: "string \<Rightarrow> pystr" where
  "ascii s = map of_char s"

text \<open>
  \<open>str.isspace\<close> of a single character (CPython's \<open>_PyUnicode_IsWhitespace\<close>):
  U+0009..U+000D, U+001C..U+0020, U+0085, U+00A0, U+1680, U+2000..U+200A, U+2028,
  U+2029, U+202F, U+205F and U+3000.
\<close>

definition isspace :: "nat \<Rightarrow> bool" where
  "isspace c \<longleftrightarrow>
     (9 \<le> c \<and> c \<le> 13) \<or> (28 \<le> c \<and> c \<le> 32) \<or> c = 133 \<or> c = 160 \<or> c = 5760 \<or>
     (8192 \<le> c \<and> c \<le> 8202) \<or> c = 8232 \<or> c = 8233 \<or> c = 8239 \<or> c = 8287 \<or>
     c = 12288"

text \<open>\<open>s.strip()\<close>: leading and trailing whitespace removed, the inside untouched.\<close>

definition strip :: "pystr \<Rightarrow> pystr" where
  "strip s = rev (dropWhile isspace (rev (dropWhile isspace s)))"

section \<open>Cells, errors and data frames\<close>

text \<open>
  A cell of a data frame that the analysis works on: a text, a number, a truth value
  or pandas' missing value. A number is given by its value, an exact real: the
  rounding of binary floating point is not part of this model, and neither are
  infinities. The wrap-around of 64-bit integers is: see \<open>wrap\<close> below.
\<close>

datatype cell = Str pystr | Num real | Flag bool | NaN

text \<open>The exceptions that the modelled code can raise.\<close>

datatype error =
    AttributeError
  | KeyError pystr
  | ValueError

text \<open>
  A data frame is its columns in order, each a label with the values of that column
  from the first row to the last; in a data frame all columns are of one length. \<open>df[c]\<close> reads a column and raises \<open>KeyError\<close>
  when there is none; \<open>df[c] = values\<close> replaces the column where it stands, or
  appends it as the last column when the label is new.
\<close>

type_synonym 'c frame = "(pystr \<times> 'c list) list"

definition getitem :: "'c frame \<Rightarrow> pystr \<Rightarrow> error + 'c list" where
  "getitem df c = (case map_of df c of None \<Rightarrow> Inl (KeyError c) | Some col \<Rightarrow> Inr col)"

definition setitem :: "'c frame \<Rightarrow> pystr \<Rightarrow> 'c list \<Rightarrow> 'c frame" where
  "setitem df c col = AList.update c col df"

text \<open>The number of rows; a frame without columns has none.\<close>

definition nrows :: "'c frame \<Rightarrow> nat" where
  "nrows df = (case df of [] \<Rightarrow> 0 | (_, col) # _ \<Rightarrow> length col)"

text \<open>
  Boolean indexing \<open>df[mask]\<close>: of every column, the values at the positions where
  the mask is true, in order.
\<close>

definition select :: "bool list \<Rightarrow> 'a list \<Rightarrow> 'a list" where
  "select keep xs = map snd (filter fst (zip keep xs))"

definition select_rows :: "'c frame \<Rightarrow> bool list \<Rightarrow> 'c frame" where
  "select_rows df keep = map (\<lambda>(k, col). (k, select keep col)) df"

text \<open>
  The rows of a table given by its columns: row \<open>i\<close> holds the \<open>i\<close>-th value of
  every column, left to right.
\<close>

fun rows_of :: "'a list list \<Rightarrow> 'a list list" where
  "rows_of [] = []"
| "rows_of [c] = map (\<lambda>x. [x]) c"
| "rows_of (c # cs) = map2 (#) c (rows_of cs)"

section \<open>The grade table: \<open>parse_gpa_to_numeric\<close>\<close>

text \<open>
  The dictionary literal \<open>gpa_map\<close> of lines 13 to 21, entry by entry. The last two
  keys are the marks U+62B5 U+514D (credit transferred) and U+901A U+904E (passed).
\<close>

definition gpa_map :: "(pystr \<times> real) list" where
  "gpa_map =
    [(ascii ''A+'', 4.3), (ascii ''A'', 4.0), (ascii ''A-'', 3.7),
     (ascii ''B+'', 3.3), (ascii ''B'', 3.0), (ascii ''B-'', 2.7),
     (ascii ''C+'', 2.3), (ascii ''C'', 2.0), (ascii ''C-'', 1.7),
     (ascii ''D+'', 1.3), (ascii ''D'', 1.0), (ascii ''D-'', 0.7),
     (ascii ''E'', 0.0), (ascii ''F'', 0.0),
     ([25269, 20813], 999.0),
     ([36890, 36942], 999.0)]"

text \<open>\<open>d.get(key, default)\<close>.\<close>

definition dict_get :: "('k \<times> 'v) list \<Rightarrow> 'k \<Rightarrow> 'v \<Rightarrow> 'v" where
  "dict_get d k dflt = (case map_of d k of Some v \<Rightarrow> v | None \<Rightarrow> dflt)"

text \<open>
  \<open>gpa_map.get(gpa_str.strip(), 0.0)\<close>. Only a text has \<open>strip\<close>: on a number, a
  truth value or a missing value the call raises \<open>AttributeError\<close>.
\<close>

fun parse_gpa_to_numeric :: "cell \<Rightarrow> error + real" where
  "parse_gpa_to_numeric (Str gpa_str) = Inr (dict_get gpa_map (strip gpa_str) 0.0)"
| "parse_gpa_to_numeric _ = Inl AttributeError"

text \<open>ASCII lowercase, to speak about differently cased spellings of a grade.\<close>

definition lowercase :: "pystr \<Rightarrow> pystr" where
  "lowercase s = map (\<lambda>c. if 65 \<le> c \<and> c \<le> 90 then c + 32 else c) s"

section \<open>The analysis: \<open>analyze_student_grades\<close>\<close>

text \<open>The labels of the columns that the analysis reads and writes.\<close>

definition credits_label :: pystr where
  "credits_label = [23416, 20998]"

definition gpa_label :: pystr where
  "gpa_label = ascii ''GPA''"

definition gpa_numeric_label :: pystr where
  "gpa_numeric_label = ascii ''GPA_Numeric''"

definition passed_label :: pystr where
  "passed_label = [26159, 21542, 36890, 36942]"

definition GRADUATION_REQUIREMENT :: real where
  "GRADUATION_REQUIREMENT = 128"

text \<open>
  \<open>pd.to_numeric(.., errors='coerce')\<close>. How pandas reads a text as a number is
  the library's business and stays a parameter \<open>conv\<close> of the model: \<open>conv s\<close> is
  the number read from \<open>s\<close>, a whole number when pandas reads the text as an integer
  and a float otherwise, or \<open>None\<close> where it cannot read the text and puts NaN. A
  number already in the column is a float, a truth value counts as the whole number
  1 or 0, and a missing value stays missing.
\<close>

datatype number = Whole int | Frac real

fun number_value :: "number \<Rightarrow> real" where
  "number_value (Whole n) = of_int n"
| "number_value (Frac x) = x"

fun read_number :: "(pystr \<Rightarrow> number option) \<Rightarrow> cell \<Rightarrow> number option" where
  "read_number conv (Str s) = conv s"
| "read_number conv (Num x) = Some (Frac x)"
| "read_number conv (Flag b) = Some (Whole (if b then 1 else 0))"
| "read_number conv NaN = None"

text \<open>The value that the conversion leaves in a cell; \<open>fillna(0)\<close> then puts 0 for NaN.\<close>

definition to_numeric :: "(pystr \<Rightarrow> number option) \<Rightarrow> cell \<Rightarrow> real option" where
  "to_numeric conv c = map_option number_value (read_number conv c)"

definition fillna :: "real \<Rightarrow> real option \<Rightarrow> real" where
  "fillna v x = (case x of None \<Rightarrow> v | Some y \<Rightarrow> y)"

text \<open>
  The type of the converted column, as pandas settles it under \<open>errors='coerce'\<close>.
  The column is \<open>float64\<close> as soon as one value is a float or is NaN, or is a whole
  number outside the range from \<open>-2^63\<close> to \<open>2^64 - 1\<close>, or when a whole number from
  \<open>2^63\<close> on stands next to a negative one. Otherwise all values are whole numbers
  and the column is \<open>uint64\<close> when one of them is \<open>2^63\<close> or more, else \<open>int64\<close>
  (also for a column without rows).
\<close>

datatype dtype = Int64 | UInt64 | Float64

definition seen_float :: "number option \<Rightarrow> bool" where
  "seen_float v =
     (case v of None \<Rightarrow> True | Some (Frac x) \<Rightarrow> True
      | Some (Whole n) \<Rightarrow> n < - (2 ^ 63) \<or> 2 ^ 64 \<le> n)"

definition seen_uint :: "number option \<Rightarrow> bool" where
  "seen_uint v = (case v of Some (Whole n) \<Rightarrow> 2 ^ 63 \<le> n \<and> n < 2 ^ 64 | _ \<Rightarrow> False)"

definition seen_sint :: "number option \<Rightarrow> bool" where
  "seen_sint v = (case v of Some (Whole n) \<Rightarrow> - (2 ^ 63) \<le> n \<and> n < 0 | _ \<Rightarrow> False)"

definition column_dtype :: "number option list \<Rightarrow> dtype" where
  "column_dtype vs =
     (if list_ex seen_float vs \<or> (list_ex seen_uint vs \<and> list_ex seen_sint vs) then Float64
      else if list_ex seen_uint vs then UInt64
      else Int64)"

text \<open>
  Arithmetic on values of a column. On \<open>int64\<close> and \<open>uint64\<close> the sum of line 52
  and the subtraction of line 55 are done in 64 bits and wrap around without an
  error (for \<open>uint64\<close> the subtraction is NumPy 2's; NumPy 1 does it in floats). The
  values are whole there, and the floor reads them as the integers they are. On
  \<open>float64\<close> the model computes with exact reals: the rounding of floating point
  is not part of it.
\<close>

definition wrap :: "dtype \<Rightarrow> real \<Rightarrow> real" where
  "wrap dt x =
     (case dt of
        Float64 \<Rightarrow> x
      | Int64 \<Rightarrow> of_int ((\<lfloor>x\<rfloor> + 2 ^ 63) mod 2 ^ 64 - 2 ^ 63)
      | UInt64 \<Rightarrow> of_int (\<lfloor>x\<rfloor> mod 2 ^ 64))"

text \<open>\<open>series.apply(f)\<close> for an \<open>f\<close> that can raise: the first exception ends it.\<close>

fun series_apply :: "('a \<Rightarrow> error + 'b) \<Rightarrow> 'a list \<Rightarrow> error + 'b list" where
  "series_apply f [] = Inr []"
| "series_apply f (x # xs) =
     (case f x of
        Inl e \<Rightarrow> Inl e
      | Inr y \<Rightarrow> (case series_apply f xs of Inl e \<Rightarrow> Inl e | Inr ys \<Rightarrow> Inr (y # ys)))"

text \<open>
  \<open>analyze_student_grades(df)\<close>, lines 25 to 57. The function assigns to columns of
  the frame it is given, so the model returns, next to the result or the exception,
  the frame as the caller finds it afterwards. The series assigned to a column is
  the series that the following lines read back from it, and the credits column
  keeps the type that the conversion gave it. The result is the triple of the total
  of earned credits, the remaining credits and the frame of the passed courses.
\<close>

definition analyze_student_grades ::
  "(pystr \<Rightarrow> number option) \<Rightarrow> cell frame \<Rightarrow> (error + real \<times> real \<times> cell frame) \<times> cell frame"
where
  "analyze_student_grades conv df =
    (case getitem df credits_label of
       Inl e \<Rightarrow> (Inl e, df)
     | Inr raw \<Rightarrow>
        let dt = column_dtype (map (read_number conv) raw);
            credits = map (\<lambda>c. fillna 0 (to_numeric conv c)) raw;
            df1 = setitem df credits_label (map Num credits)
        in (case getitem df1 gpa_label of
              Inl e \<Rightarrow> (Inl e, df1)
            | Inr gpa \<Rightarrow>
               (case series_apply parse_gpa_to_numeric gpa of
                  Inl e \<Rightarrow> (Inl e, df1)
                | Inr points \<Rightarrow>
                   let df2 = setitem df1 gpa_numeric_label (map Num points);
                       passed = map (\<lambda>x. x \<ge> 1.7) points;
                       df3 = setitem df2 passed_label (map Flag passed);
                       keep = map2 (\<and>) passed (map (\<lambda>c. c > 0) credits);
                       passed_courses_df = select_rows df3 keep;
                       total_earned_credits = wrap dt (sum_list (select keep credits));
                       remaining_credits_to_graduate =
                         max 0 (wrap dt (GRADUATION_REQUIREMENT - total_earned_credits))
                   in (Inr (total_earned_credits, remaining_credits_to_graduate,
                            passed_courses_df), df3))))"

text \<open>
  A reader of plain integer literals: an optional sign and ASCII digits, nothing
  else. On these texts it gives the whole number that pandas gives; every other
  text it leaves unread, also those that pandas reads (such as \<open>3.5\<close> or \<open>1e2\<close>).
  It serves to run the analysis on concrete frames of such texts; the properties
  below hold for every reader.
\<close>

definition digits_value :: "nat list \<Rightarrow> nat option" where
  "digits_value ds =
     (if ds \<noteq> [] \<and> list_all (\<lambda>d. 48 \<le> d \<and> d \<le> 57) ds
      then Some (foldl (\<lambda>a d. 10 * a + (d - 48)) 0 ds) else None)"

definition int_literal :: "pystr \<Rightarrow> number option" where
  "int_literal s =
     (case s of
        [] \<Rightarrow> None
      | c # cs \<Rightarrow>
          if c = 45 then map_option (\<lambda>n. Whole (- int n)) (digits_value cs)
          else if c = 43 then map_option (\<lambda>n. Whole (int n)) (digits_value cs)
          else map_option (\<lambda>n. Whole (int n)) (digits_value (c # cs)))"

section \<open>Normalisation of the extracted tables: the loop of \<open>main\<close>\<close>

text \<open>
  A cell of an extracted table is missing (pandas' NaN) or has a value, which is
  given by the text that \<open>astype(str)\<close> makes of it: the code reads the cells of
  these tables through \<open>astype(str)\<close> only, and a missing cell reads as the text
  \<open>nan\<close> (so in pandas 2; pandas 3 keeps it missing). A table is the list of its columns from left to right, all of one length,
  with the column positions as labels.
\<close>

datatype raw_cell = Text pystr | Missing

type_synonym raw_table = "raw_cell list list"

definition astype_str :: "raw_cell \<Rightarrow> pystr" where
  "astype_str c = (case c of Text s \<Rightarrow> s | Missing \<Rightarrow> ascii ''nan'')"

text \<open>
  The six labels of \<open>expected_columns\<close>: academic year, term, course code, course
  name, credits and \<open>GPA\<close>.
\<close>

definition year_label :: pystr where
  "year_label = [23416, 24180, 24230]"

definition term_label :: pystr where
  "term_label = [23416, 26399]"

definition course_code_label :: pystr where
  "course_code_label = [36984, 35506, 20195, 34399]"

definition course_name_label :: pystr where
  "course_name_label = [31185, 30446, 21517, 31281]"

definition expected_columns :: "pystr list" where
  "expected_columns =
     [year_label, term_label, course_code_label, course_name_label, credits_label, gpa_label]"

text \<open>
  The class \<open>\d\<close> of Python's \<open>re\<close> on text: the decimal digits of Unicode
  (category Nd, here of Unicode 14.0), which come in runs whose first code points
  are listed; every run has ten digits but the mathematical digits from U+1D7CE,
  which are fifty.
\<close>

definition Nd_runs :: "(nat \<times> nat) list" where
  "Nd_runs =
     [(48, 10), (1632, 10), (1776, 10), (1984, 10), (2406, 10), (2534, 10), (2662, 10),
      (2790, 10), (2918, 10), (3046, 10), (3174, 10), (3302, 10), (3430, 10), (3558, 10),
      (3664, 10), (3792, 10), (3872, 10), (4160, 10), (4240, 10), (6112, 10), (6160, 10),
      (6470, 10), (6608, 10), (6784, 10), (6800, 10), (6992, 10), (7088, 10), (7232, 10),
      (7248, 10), (42528, 10), (43216, 10), (43264, 10), (43472, 10), (43504, 10),
      (43600, 10), (44016, 10), (65296, 10), (66720, 10), (68912, 10), (69734, 10),
      (69872, 10), (69942, 10), (70096, 10), (70384, 10), (70736, 10), (70864, 10),
      (71248, 10), (71360, 10), (71472, 10), (71904, 10), (72016, 10), (72784, 10),
      (73040, 10), (73120, 10), (92768, 10), (92864, 10), (93008, 10), (120782, 50),
      (123200, 10), (123632, 10), (125264, 10), (130032, 10)]"

definition re_digit :: "nat \<Rightarrow> bool" where
  "re_digit c \<longleftrightarrow> list_ex (\<lambda>(start, n). start \<le> c \<and> c < start + n) Nd_runs"

text \<open>
  \<open>str.match(r'^\d{3}$')\<close>: the pattern is matched from the start of the text, and
  \<open>$\<close> stands at the end of the text or before a line feed that ends it. So the
  texts that match are three digits, or three digits and one line feed.
\<close>

fun str_match_d3 :: "pystr \<Rightarrow> bool" where
  "str_match_d3 [a, b, c] = (re_digit a \<and> re_digit b \<and> re_digit c)"
| "str_match_d3 [a, b, c, e] = (re_digit a \<and> re_digit b \<and> re_digit c \<and> e = 10)"
| "str_match_d3 _ = False"

text \<open>
  \<open>str.contains(pat)\<close> for a pattern without special characters: \<open>pat\<close> occurs
  somewhere in the text.
\<close>

fun starts_with :: "pystr \<Rightarrow> pystr \<Rightarrow> bool" where
  "starts_with [] s = True"
| "starts_with (p # ps) [] = False"
| "starts_with (p # ps) (c # cs) = (p = c \<and> starts_with ps cs)"

fun str_contains :: "pystr \<Rightarrow> pystr \<Rightarrow> bool" where
  "str_contains pat [] = (pat = [])"
| "str_contains pat (c # cs) = (starts_with pat (c # cs) \<or> str_contains pat cs)"

text \<open>The marker of the summary row about the labour score, U+52DE U+4F5C U+6210 U+7E3E.\<close>

definition summary_marker :: pystr where
  "summary_marker = [21214, 20316, 25104, 32318]"

text \<open>The row filter of lines 105 to 108, on the cell of the academic year.\<close>

definition year_ok :: "raw_cell \<Rightarrow> bool" where
  "year_ok c \<longleftrightarrow>
     str_match_d3 (astype_str c) \<and> \<not> str_contains summary_marker (astype_str c)"

text \<open>
  \<open>df.columns = labels\<close>: the labels replace the column labels one for one, and
  pandas raises \<open>ValueError\<close> (length mismatch) when their number is not the number
  of columns.
\<close>

definition set_columns :: "'c list list \<Rightarrow> pystr list \<Rightarrow> error + 'c frame" where
  "set_columns tbl labels =
     (if length labels = length tbl then Inr (zip labels tbl) else Inl ValueError)"

text \<open>
  \<open>pd.concat([a, b], ignore_index=True)\<close>: the rows of \<open>b\<close> under the rows of \<open>a\<close>.
  The columns are those of \<open>a\<close> followed by the new ones of \<open>b\<close>, and a frame that
  lacks a column has missing cells there.
\<close>

definition column_or_missing :: "raw_cell frame \<Rightarrow> pystr \<Rightarrow> raw_cell list" where
  "column_or_missing df k =
     (case map_of df k of Some col \<Rightarrow> col | None \<Rightarrow> replicate (nrows df) Missing)"

definition pd_concat :: "raw_cell frame \<Rightarrow> raw_cell frame \<Rightarrow> raw_cell frame" where
  "pd_concat a b =
     map (\<lambda>k. (k, column_or_missing a k @ column_or_missing b k))
       (map fst a @ filter (\<lambda>k. k \<notin> set (map fst a)) (map fst b))"

text \<open>
  The loop over the extracted tables, lines 96 to 111. The state is the frame
  collected so far and the advisory warnings shown so far, one for each skipped
  table. An exception leaves the loop; the warnings shown before it stay shown.
\<close>

datatype message =
    NoTablesWarning
  | SkippedTableWarning raw_table
  | NoValidRowsWarning
  | ErrorShown error
  | TotalCreditsMetric real
  | RemainingCreditsMetric real
  | PassedCourses "cell frame"
  | ExtractedData "cell frame"

fun collect_tables ::
  "raw_table list \<Rightarrow> raw_cell frame \<Rightarrow> message list \<Rightarrow> (error + raw_cell frame) \<times> message list"
where
  "collect_tables [] full_grades_df shown = (Inr full_grades_df, shown)"
| "collect_tables (df_table # rest) full_grades_df shown =
     (if length df_table \<ge> length expected_columns then
        (case set_columns df_table (take (length df_table) expected_columns) of
           Inl e \<Rightarrow> (Inl e, shown)
         | Inr labelled \<Rightarrow>
            (case getitem labelled year_label of
               Inl e \<Rightarrow> (Inl e, shown)
             | Inr years \<Rightarrow>
                collect_tables rest
                  (pd_concat full_grades_df (select_rows labelled (map year_ok years)))
                  shown))
      else collect_tables rest full_grades_df (shown @ [SkippedTableWarning df_table]))"

text \<open>
  \<open>dropna(how='all')\<close> removes the rows in which every cell is missing; the loop
  of lines 117 and 118 then turns every cell into its text, stripped.
\<close>

definition all_missing_mask :: "raw_cell frame \<Rightarrow> bool list" where
  "all_missing_mask df =
     foldr (\<lambda>(k, col) acc. map2 (\<and>) (map (\<lambda>c. c = Missing) col) acc) df
       (replicate (nrows df) True)"

definition dropna_all :: "raw_cell frame \<Rightarrow> raw_cell frame" where
  "dropna_all df = select_rows df (map Not (all_missing_mask df))"

definition strip_all :: "raw_cell frame \<Rightarrow> cell frame" where
  "strip_all df = map (\<lambda>(k, col). (k, map (\<lambda>c. Str (strip (astype_str c))) col)) df"

text \<open>\<open>df.empty\<close>: no columns or no rows.\<close>

definition frame_empty :: "'c frame \<Rightarrow> bool" where
  "frame_empty df \<longleftrightarrow> df = [] \<or> nrows df = 0"

text \<open>
  Selecting a list of columns of a frame: the named columns in the order named,
  \<open>KeyError\<close> when one is absent.
\<close>

fun select_columns :: "'c frame \<Rightarrow> pystr list \<Rightarrow> error + 'c frame" where
  "select_columns df [] = Inr []"
| "select_columns df (k # ks) =
     (case getitem df k of
        Inl e \<Rightarrow> Inl e
      | Inr col \<Rightarrow>
          (case select_columns df ks of Inl e \<Rightarrow> Inl e | Inr rest \<Rightarrow> Inr ((k, col) # rest)))"

text \<open>
  What \<open>main\<close> does with the tables that the extraction returned, lines 88 to 139,
  given as what it shows to the user, in order. An exception anywhere is caught by
  the handler of line 136, which shows it; nothing more is shown after it. The frame
  shown last, for debugging, is the collected frame as the analysis has left it.
\<close>

definition main :: "(pystr \<Rightarrow> number option) \<Rightarrow> raw_table list \<Rightarrow> message list" where
  "main conv raw_dfs =
    (if raw_dfs = [] then [NoTablesWarning]
     else
       (case collect_tables raw_dfs [] [] of
          (Inl e, shown) \<Rightarrow> shown @ [ErrorShown e]
        | (Inr collected, shown) \<Rightarrow>
           let full_grades_df = strip_all (dropna_all collected)
           in if \<not> frame_empty full_grades_df then
                (case analyze_student_grades conv full_grades_df of
                   (Inl e, df') \<Rightarrow> shown @ [ErrorShown e]
                 | (Inr (total_credits, remaining_credits, passed_courses_df), df') \<Rightarrow>
                    (case select_columns passed_courses_df
                            [year_label, term_label, course_name_label, credits_label, gpa_label] of
                       Inl e \<Rightarrow>
                         shown @ [TotalCreditsMetric total_credits,
                                  RemainingCreditsMetric remaining_credits, ErrorShown e]
                     | Inr listed \<Rightarrow>
                         shown @ [TotalCreditsMetric total_credits,
                                  RemainingCreditsMetric remaining_credits,
                                  PassedCourses listed, ExtractedData df']))
              else shown @ [NoValidRowsWarning]))"

text \<open>
  A table is rectangular when all its columns have the same number of cells. The
  frame collected by the loop either has no columns yet, or has the six expected
  columns, and then holds given rows.
\<close>

definition rect :: "nat \<Rightarrow> 'a list list \<Rightarrow> bool" where
  "rect n cols \<longleftrightarrow> list_all (\<lambda>c. length c = n) cols"

definition holds_rows :: "raw_cell frame \<Rightarrow> raw_cell list list \<Rightarrow> bool" where
  "holds_rows df rows \<longleftrightarrow>
     (df = [] \<and> rows = []) \<or>
     (\<exists>cols n. df = zip expected_columns cols \<and> length cols = 6 \<and> rect n cols \<and>
        rows_of cols = rows)"

section \<open>The specification's words\<close>

text \<open>
  The pass rule as the specification words it: a record passes when its grade point
  is at least 1.7 and its credits are greater than 0.
\<close>

definition spec_passes :: "real \<Rightarrow> real \<Rightarrow> bool" where
  "spec_passes point credits \<longleftrightarrow> point \<ge> 1.7 \<and> credits > 0"

text \<open>
  The invariant on credits as the specification words it: every credits value is a
  number and is at least 0.
\<close>

definition spec_credits_ok :: "cell list \<Rightarrow> bool" where
  "spec_credits_ok col \<longleftrightarrow> list_all (\<lambda>c. case c of Num x \<Rightarrow> 0 \<le> x | _ \<Rightarrow> False) col"

text \<open>
  The row filter as the specification words it: the academic year cell, stripped,
  is exactly three digits, and the cell does not contain the marker.
\<close>

definition spec_year_ok :: "raw_cell \<Rightarrow> bool" where
  "spec_year_ok c \<longleftrightarrow>
     (length (strip (astype_str c)) = 3 \<and> list_all re_digit (strip (astype_str c))) \<and>
     \<not> str_contains summary_marker (astype_str c)"

section \<open>Properties of the grade table\<close>

lemma gpa_map_keys:
  "fst ` set gpa_map =
     {[65, 43], [65], [65, 45], [66, 43], [66], [66, 45], [67, 43], [67], [67, 45],
      [68, 43], [68], [68, 45], [69], [70], [25269, 20813], [36890, 36942]}"
  by (simp add: gpa_map_def ascii_def)

lemma gpa_key_no_space: "k \<in> fst ` set gpa_map \<Longrightarrow> c \<in> set k \<Longrightarrow> \<not> isspace c"
  unfolding gpa_map_keys by (auto simp: isspace_def)

lemma gpa_key_short: "k \<in> fst ` set gpa_map \<Longrightarrow> length k \<le> 2"
  unfolding gpa_map_keys by auto

lemma dropWhile_none: "s \<noteq> [] \<Longrightarrow> \<not> P (hd s) \<Longrightarrow> dropWhile P s = s"
  by (cases s) auto

lemma strip_plain:
  "s \<noteq> [] \<Longrightarrow> \<not> isspace (hd s) \<Longrightarrow> \<not> isspace (last s) \<Longrightarrow> strip s = s"
  unfolding strip_def by (simp add: dropWhile_none hd_rev)

lemma gpa_points:
  "parse_gpa_to_numeric (Str (ascii ''A+'')) = Inr 4.3"
  "parse_gpa_to_numeric (Str (ascii ''A'')) = Inr 4.0"
  "parse_gpa_to_numeric (Str (ascii ''A-'')) = Inr 3.7"
  "parse_gpa_to_numeric (Str (ascii ''B+'')) = Inr 3.3"
  "parse_gpa_to_numeric (Str (ascii ''B'')) = Inr 3.0"
  "parse_gpa_to_numeric (Str (ascii ''B-'')) = Inr 2.7"
  "parse_gpa_to_numeric (Str (ascii ''C+'')) = Inr 2.3"
  "parse_gpa_to_numeric (Str (ascii ''C'')) = Inr 2.0"
  "parse_gpa_to_numeric (Str (ascii ''C-'')) = Inr 1.7"
  "parse_gpa_to_numeric (Str (ascii ''D+'')) = Inr 1.3"
  "parse_gpa_to_numeric (Str (ascii ''D'')) = Inr 1.0"
  "parse_gpa_to_numeric (Str (ascii ''D-'')) = Inr 0.7"
  "parse_gpa_to_numeric (Str (ascii ''E'')) = Inr 0"
  "parse_gpa_to_numeric (Str (ascii ''F'')) = Inr 0"
  "parse_gpa_to_numeric (Str [25269, 20813]) = Inr 999"
  "parse_gpa_to_numeric (Str [36890, 36942]) = Inr 999"
  by (simp_all add: dict_get_def gpa_map_def ascii_def strip_def isspace_def)

lemma gpa_unknown:
  "strip s \<notin> fst ` set gpa_map \<Longrightarrow> parse_gpa_to_numeric (Str s) = Inr 0"
  by (auto simp: dict_get_def map_of_eq_None_iff[symmetric] split: option.splits)

lemma gpa_nonzero_in_table:
  "parse_gpa_to_numeric (Str s) = Inr p \<Longrightarrow> p \<noteq> 0 \<Longrightarrow> (strip s, p) \<in> set gpa_map"
  by (auto simp: dict_get_def split: option.splits dest: map_of_SomeD)

lemma gpa_lowercase_all:
  "list_all (\<lambda>k. lowercase k \<noteq> k \<longrightarrow> dict_get gpa_map (strip (lowercase k)) 0 = 0)
     (map fst gpa_map)"
  by (simp add: gpa_map_def ascii_def lowercase_def dict_get_def strip_def isspace_def)

lemma gpa_lowercase:
  "k \<in> fst ` set gpa_map \<Longrightarrow> lowercase k \<noteq> k \<Longrightarrow>
   parse_gpa_to_numeric (Str (lowercase k)) = Inr 0"
  using gpa_lowercase_all by (auto simp: list_all_iff)

lemma gpa_inner_char:
  assumes "a @ b \<in> fst ` set gpa_map" "a \<noteq> []" "b \<noteq> []"
  shows "parse_gpa_to_numeric (Str (a @ w # b)) = Inr 0"
proof -
  have "hd (a @ w # b) = hd (a @ b)" "last (a @ w # b) = last (a @ b)"
    using assms by auto
  moreover have "hd (a @ b) \<in> set (a @ b)" "last (a @ b) \<in> set (a @ b)"
    using assms by auto
  ultimately have "strip (a @ w # b) = a @ w # b"
    using gpa_key_no_space[OF assms(1)] by (intro strip_plain) auto
  moreover have "length (a @ w # b) > 2"
    using assms by (cases a; cases b) auto
  ultimately have "strip (a @ w # b) \<notin> fst ` set gpa_map"
    using gpa_key_short by fastforce
  then show ?thesis by (rule gpa_unknown)
qed

text \<open>
  Claim C2. The lookup returns the constant of the table for each of its sixteen
  grades: A+ 4.3, A 4.0, A- 3.7, B+ 3.3, B 3.0, B- 2.7, C+ 2.3, C 2.0, C- 1.7,
  D+ 1.3, D 1.0, D- 0.7, E 0, F 0, and 999 for the two credit-equivalent marks. For
  every text that, once stripped, is not a key of the table, it returns 0.
\<close>

theorem gpa_table_and_default:
  "(parse_gpa_to_numeric (Str (ascii ''A+'')) = Inr 4.3 \<and>
    parse_gpa_to_numeric (Str (ascii ''A'')) = Inr 4.0 \<and>
    parse_gpa_to_numeric (Str (ascii ''A-'')) = Inr 3.7 \<and>
    parse_gpa_to_numeric (Str (ascii ''B+'')) = Inr 3.3 \<and>
    parse_gpa_to_numeric (Str (ascii ''B'')) = Inr 3.0 \<and>
    parse_gpa_to_numeric (Str (ascii ''B-'')) = Inr 2.7 \<and>
    parse_gpa_to_numeric (Str (ascii ''C+'')) = Inr 2.3 \<and>
    parse_gpa_to_numeric (Str (ascii ''C'')) = Inr 2.0 \<and>
    parse_gpa_to_numeric (Str (ascii ''C-'')) = Inr 1.7 \<and>
    parse_gpa_to_numeric (Str (ascii ''D+'')) = Inr 1.3 \<and>
    parse_gpa_to_numeric (Str (ascii ''D'')) = Inr 1.0 \<and>
    parse_gpa_to_numeric (Str (ascii ''D-'')) = Inr 0.7 \<and>
    parse_gpa_to_numeric (Str (ascii ''E'')) = Inr 0 \<and>
    parse_gpa_to_numeric (Str (ascii ''F'')) = Inr 0 \<and>
    parse_gpa_to_numeric (Str [25269, 20813]) = Inr 999 \<and>
    parse_gpa_to_numeric (Str [36890, 36942]) = Inr 999) \<and>
   (\<forall>s. strip s \<notin> fst ` set gpa_map \<longrightarrow> parse_gpa_to_numeric (Str s) = Inr 0)"
  by (intro conjI allI impI gpa_points gpa_unknown)

theorem gpa_table_and_default_witness:
  "strip (ascii ''Pass'') \<notin> fst ` set gpa_map \<and>
   parse_gpa_to_numeric (Str (ascii ''Pass'')) = Inr 0"
proof -
  have h: "strip (ascii ''Pass'') \<notin> fst ` set gpa_map"
    by (simp add: gpa_map_keys strip_def ascii_def isspace_def)
  show ?thesis
    using h gpa_table_and_default [THEN conjunct2, rule_format, of "ascii ''Pass''"]
    by simp
qed

lemma gpa_map_distinct: "distinct (map fst gpa_map)"
  by (simp add: gpa_map_def ascii_def)

lemma dropWhile_all_append: "list_all P xs \<Longrightarrow> dropWhile P (xs @ ys) = dropWhile P ys"
  by (induction xs) auto

lemma strip_padded:
  assumes "list_all isspace l" "list_all isspace r" "k \<noteq> []" "\<not> isspace (hd k)" "\<not> isspace (last k)"
  shows "strip (l @ k @ r) = k"
proof -
  have a: "dropWhile isspace (l @ k @ r) = k @ r"
    using assms by (simp add: dropWhile_all_append dropWhile_none)
  have b: "dropWhile isspace (rev r @ rev k) = rev k"
    using assms by (simp add: dropWhile_all_append dropWhile_none hd_rev)
  show ?thesis unfolding strip_def a by (simp add: b)
qed

lemma gpa_padded:
  assumes "(k, v) \<in> set gpa_map" "list_all isspace l" "list_all isspace r"
  shows "parse_gpa_to_numeric (Str (l @ k @ r)) = Inr v"
proof -
  have kk: "k \<in> fst ` set gpa_map" using assms(1) by force
  then have ne: "k \<noteq> []" unfolding gpa_map_keys by auto
  then have "hd k \<in> set k" "last k \<in> set k" by auto
  with kk have "\<not> isspace (hd k)" "\<not> isspace (last k)" using gpa_key_no_space by blast+
  with ne assms have "strip (l @ k @ r) = k" by (intro strip_padded)
  moreover have "map_of gpa_map k = Some v"
    using gpa_map_distinct assms(1) by (rule map_of_is_SomeI)
  ultimately show ?thesis by (simp add: dict_get_def)
qed

text \<open>
  Claim C9. The lookup matches by exact, case-sensitive equality of the stripped
  text with a key. Whitespace around a key is ignored; a text whose value is not 0
  strips to exactly a key of the table and has that key's value; the lowercase
  spelling of a key that has letters maps to 0; and a key with any character, such
  as a blank, put inside it maps to 0.
\<close>

theorem gpa_lookup_is_exact:
  "(\<forall>k v l r. (k, v) \<in> set gpa_map \<and> list_all isspace l \<and> list_all isspace r \<longrightarrow>
        parse_gpa_to_numeric (Str (l @ k @ r)) = Inr v) \<and>
   (\<forall>s p. parse_gpa_to_numeric (Str s) = Inr p \<and> p \<noteq> 0 \<longrightarrow> (strip s, p) \<in> set gpa_map) \<and>
   (\<forall>k. k \<in> fst ` set gpa_map \<and> lowercase k \<noteq> k \<longrightarrow>
        parse_gpa_to_numeric (Str (lowercase k)) = Inr 0) \<and>
   (\<forall>a b w. a @ b \<in> fst ` set gpa_map \<and> a \<noteq> [] \<and> b \<noteq> [] \<longrightarrow>
        parse_gpa_to_numeric (Str (a @ w # b)) = Inr 0)"
proof (intro conjI allI impI)
  fix k v l r
  assume "(k, v) \<in> set gpa_map \<and> list_all isspace l \<and> list_all isspace r"
  then show "parse_gpa_to_numeric (Str (l @ k @ r)) = Inr v"
    by (elim conjE) (rule gpa_padded)
next
  fix s p assume "parse_gpa_to_numeric (Str s) = Inr p \<and> p \<noteq> 0"
  then show "(strip s, p) \<in> set gpa_map"
    by (elim conjE) (rule gpa_nonzero_in_table)
next
  fix k assume "k \<in> fst ` set gpa_map \<and> lowercase k \<noteq> k"
  then show "parse_gpa_to_numeric (Str (lowercase k)) = Inr 0"
    by (elim conjE) (rule gpa_lowercase)
next
  fix a b :: pystr and w assume "a @ b \<in> fst ` set gpa_map \<and> a \<noteq> [] \<and> b \<noteq> []"
  then show "parse_gpa_to_numeric (Str (a @ w # b)) = Inr 0"
    by (elim conjE) (rule gpa_inner_char)
qed

theorem gpa_lookup_is_exact_witness:
  "((ascii ''B+'', 3.3) \<in> set gpa_map \<and> list_all isspace [32] \<and> list_all isspace [9, 10] \<and>
      parse_gpa_to_numeric (Str ([32] @ ascii ''B+'' @ [9, 10])) = Inr 3.3) \<and>
   (parse_gpa_to_numeric (Str (ascii '' B+ '')) = Inr 3.3 \<and> (3.3::real) \<noteq> 0 \<and>
      (strip (ascii '' B+ ''), 3.3) \<in> set gpa_map) \<and>
   (ascii ''B+'' \<in> fst ` set gpa_map \<and> lowercase (ascii ''B+'') \<noteq> ascii ''B+'' \<and>
      parse_gpa_to_numeric (Str (lowercase (ascii ''B+''))) = Inr 0) \<and>
   (ascii ''B'' @ ascii ''+'' \<in> fst ` set gpa_map \<and> ascii ''B'' \<noteq> [] \<and> ascii ''+'' \<noteq> [] \<and>
      parse_gpa_to_numeric (Str (ascii ''B'' @ 32 # ascii ''+'')) = Inr 0)"
proof -
  have h0: "(ascii ''B+'', 3.3) \<in> set gpa_map \<and> list_all isspace [32] \<and> list_all isspace [9, 10]"
    by (simp add: gpa_map_def ascii_def isspace_def)
  have h1: "parse_gpa_to_numeric (Str (ascii '' B+ '')) = Inr 3.3 \<and> (3.3::real) \<noteq> 0"
    by (simp add: dict_get_def gpa_map_def ascii_def strip_def isspace_def)
  have h2: "ascii ''B+'' \<in> fst ` set gpa_map \<and> lowercase (ascii ''B+'') \<noteq> ascii ''B+''"
    by (simp add: gpa_map_keys ascii_def lowercase_def)
  have h3: "ascii ''B'' @ ascii ''+'' \<in> fst ` set gpa_map \<and> ascii ''B'' \<noteq> [] \<and> ascii ''+'' \<noteq> []"
    by (simp add: gpa_map_keys ascii_def)
  have c0: "parse_gpa_to_numeric (Str ([32] @ ascii ''B+'' @ [9, 10])) = Inr 3.3"
    using gpa_lookup_is_exact [THEN conjunct1, rule_format, OF h0] .
  have c1: "(strip (ascii '' B+ ''), 3.3) \<in> set gpa_map"
    using gpa_lookup_is_exact [THEN conjunct2, THEN conjunct1, rule_format, OF h1] .
  have c2: "parse_gpa_to_numeric (Str (lowercase (ascii ''B+''))) = Inr 0"
    using gpa_lookup_is_exact [THEN conjunct2, THEN conjunct2, THEN conjunct1, rule_format, OF h2] .
  have c3: "parse_gpa_to_numeric (Str (ascii ''B'' @ 32 # ascii ''+'')) = Inr 0"
    using gpa_lookup_is_exact [THEN conjunct2, THEN conjunct2, THEN conjunct2, rule_format, OF h3] .
  show ?thesis
    using h0 h1 h2 h3 c0 c1 c2 c3 by - (elim conjE, intro conjI, assumption+)
qed

section \<open>Properties of the analysis\<close>

lemma labels_distinct:
  "credits_label \<noteq> gpa_label" "credits_label \<noteq> gpa_numeric_label" "credits_label \<noteq> passed_label"
  "gpa_label \<noteq> gpa_numeric_label" "gpa_label \<noteq> passed_label" "gpa_numeric_label \<noteq> passed_label"
  by (simp_all add: credits_label_def gpa_label_def gpa_numeric_label_def passed_label_def ascii_def)

lemma getitem_setitem:
  "getitem (setitem df k v) k' = (if k' = k then Inr v else getitem df k')"
  by (simp add: getitem_def setitem_def update_conv')

lemma series_apply_Str:
  "series_apply parse_gpa_to_numeric (map Str gs) = Inr (map (\<lambda>g. dict_get gpa_map (strip g) 0) gs)"
  by (induction gs) simp_all

lemma series_apply_Inr:
  "series_apply f xs = Inr ys \<Longrightarrow> list_all2 (\<lambda>x y. f x = Inr y) xs ys"
  by (induction xs arbitrary: ys) (auto split: sum.splits)

lemma keep_zip:
  "map2 (\<and>) (map (\<lambda>x. x \<ge> 1.7) points) (map (\<lambda>c. c > 0) credits) =
   map (\<lambda>(c, p). spec_passes p c) (zip credits points)"
proof (induction points arbitrary: credits)
  case Nil then show ?case by simp
next
  case (Cons p ps) then show ?case by (cases credits) (auto simp: spec_passes_def)
qed

lemma select_zip_fst:
  "select (map P (zip xs ys)) xs = map fst (filter P (zip xs ys))"
proof (induction xs arbitrary: ys)
  case Nil then show ?case by (simp add: select_def)
next
  case (Cons x xs)
  show ?case
  proof (cases ys)
    case Nil then show ?thesis by (simp add: select_def)
  next
    case (Cons y ys')
    with Cons.IH[of ys'] show ?thesis by (simp add: select_def)
  qed
qed

lemma to_numeric_simps:
  "to_numeric conv (Str s) = map_option number_value (conv s)"
  "to_numeric conv (Num x) = Some x"
  "to_numeric conv (Flag b) = Some (if b then 1 else 0)"
  "to_numeric conv NaN = None"
  by (simp_all add: to_numeric_def)

lemma wrap_Float64 [simp]: "wrap Float64 x = x"
  by (simp add: wrap_def)

lemma wrap_Int64_range:
  "\<exists>k. wrap Int64 x = of_int k \<and> - (2 ^ 63) \<le> k \<and> k < 2 ^ 63"
proof -
  let ?k = "(\<lfloor>x\<rfloor> + 2 ^ 63) mod 2 ^ 64 - 2 ^ 63 :: int"
  have "0 \<le> (\<lfloor>x\<rfloor> + 2 ^ 63) mod (2 ^ 64 :: int)" "(\<lfloor>x\<rfloor> + 2 ^ 63) mod (2 ^ 64 :: int) < 2 ^ 64"
    by simp_all
  then have "- (2 ^ 63) \<le> ?k \<and> ?k < 2 ^ 63" by simp
  then show ?thesis unfolding wrap_def by (intro exI [of _ ?k]) simp
qed

lemma wrap_UInt64_range:
  "\<exists>k. wrap UInt64 x = of_int k \<and> 0 \<le> k \<and> k < 2 ^ 64"
  unfolding wrap_def by (intro exI [of _ "\<lfloor>x\<rfloor> mod 2 ^ 64"]) simp

lemma wrap_Int64_id:
  assumes "- (2 ^ 63) \<le> k" "k < 2 ^ 63"
  shows "wrap Int64 (of_int k) = of_int k"
proof -
  have "(k + 2 ^ 63) mod 2 ^ 64 = k + 2 ^ 63"
    using assms by (intro mod_pos_pos_trivial) simp_all
  then show ?thesis by (simp add: wrap_def)
qed

lemma wrap_UInt64_id:
  assumes "0 \<le> k" "k < 2 ^ 64"
  shows "wrap UInt64 (of_int k) = of_int k"
  using assms by (simp add: wrap_def)

lemma column_dtype_whole:
  assumes "column_dtype vs \<noteq> Float64" "v \<in> set vs"
  shows "\<exists>n. v = Some (Whole n) \<and> - (2 ^ 63) \<le> n \<and> n < 2 ^ 64"
proof -
  from assms(1) have "\<not> list_ex seen_float vs"
    by (auto simp: column_dtype_def split: if_splits)
  with assms(2) have "\<not> seen_float v" by (auto simp: list_ex_iff)
  then show ?thesis
    by (auto simp: seen_float_def split: option.splits number.splits)
qed

lemma column_dtype_Int64:
  assumes "column_dtype vs = Int64" "v \<in> set vs"
  shows "\<exists>n. v = Some (Whole n) \<and> - (2 ^ 63) \<le> n \<and> n < 2 ^ 63"
proof -
  from assms(1) have "column_dtype vs \<noteq> Float64" by simp
  from column_dtype_whole [OF this assms(2)] obtain n where
    n: "v = Some (Whole n)" "- (2 ^ 63) \<le> n" "n < 2 ^ 64" by blast
  from assms(1) have "\<not> list_ex seen_uint vs"
    by (auto simp: column_dtype_def split: if_splits)
  with assms(2) have "\<not> seen_uint v" by (auto simp: list_ex_iff)
  with n show ?thesis by (auto simp: seen_uint_def)
qed

lemma column_dtype_UInt64:
  assumes "column_dtype vs = UInt64"
  shows "(\<forall>v \<in> set vs. \<exists>n. v = Some (Whole n) \<and> 0 \<le> n \<and> n < 2 ^ 64) \<and>
         (\<exists>n. Some (Whole n) \<in> set vs \<and> 2 ^ 63 \<le> n)"
proof
  from assms have nf: "column_dtype vs \<noteq> Float64" by simp
  from assms have u: "list_ex seen_uint vs" and ns: "\<not> list_ex seen_sint vs"
    by (auto simp: column_dtype_def split: if_splits)
  show "\<forall>v \<in> set vs. \<exists>n. v = Some (Whole n) \<and> 0 \<le> n \<and> n < 2 ^ 64"
  proof
    fix v assume v: "v \<in> set vs"
    from column_dtype_whole [OF nf v] obtain n where
      n: "v = Some (Whole n)" "- (2 ^ 63) \<le> n" "n < 2 ^ 64" by blast
    from ns v have "\<not> seen_sint v" by (auto simp: list_ex_iff)
    with n show "\<exists>n. v = Some (Whole n) \<and> 0 \<le> n \<and> n < 2 ^ 64"
      by (auto simp: seen_sint_def)
  qed
  from u obtain v where "v \<in> set vs" "seen_uint v" by (auto simp: list_ex_iff)
  then show "\<exists>n. Some (Whole n) \<in> set vs \<and> 2 ^ 63 \<le> n"
    by (auto simp: seen_uint_def split: option.splits number.splits)
qed

lemma sum_list_Ints: "(\<And>x. x \<in> set xs \<Longrightarrow> x \<in> \<int>) \<Longrightarrow> sum_list xs \<in> (\<int> :: real set)"
  by (induction xs) auto

lemma credits_Ints:
  assumes "column_dtype (map (read_number conv) cs) \<noteq> Float64"
    and "x \<in> set (map (\<lambda>c. fillna 0 (to_numeric conv c)) cs)"
  shows "x \<in> \<int>"
proof -
  from assms(2) obtain c where c: "c \<in> set cs" "x = fillna 0 (to_numeric conv c)" by auto
  then have "read_number conv c \<in> set (map (read_number conv) cs)" by simp
  from column_dtype_whole [OF assms(1) this] obtain n where "read_number conv c = Some (Whole n)"
    by blast
  with c show ?thesis by (simp add: to_numeric_def fillna_def)
qed

lemma passing_subset:
  "set (map fst (filter P (zip xs ys))) \<subseteq> set xs"
  by (auto dest: set_zip_leftD)

lemma analyze_Inr:
  assumes "getitem df credits_label = Inr cs" "getitem df gpa_label = Inr gpa"
    "series_apply parse_gpa_to_numeric gpa = Inr points"
  shows "analyze_student_grades conv df =
     (let dt = column_dtype (map (read_number conv) cs);
          credits = map (\<lambda>c. fillna 0 (to_numeric conv c)) cs;
          keep = map (\<lambda>(c, p). spec_passes p c) (zip credits points);
          df3 = setitem (setitem (setitem df credits_label (map Num credits))
                  gpa_numeric_label (map Num points)) passed_label (map Flag (map (\<lambda>x. x \<ge> 1.7) points));
          earned = wrap dt (sum_list (map fst (filter (\<lambda>(c, p). spec_passes p c) (zip credits points))))
      in (Inr (earned, max 0 (wrap dt (GRADUATION_REQUIREMENT - earned)), select_rows df3 keep), df3))"
proof -
  have g: "getitem (setitem df credits_label v) gpa_label = Inr gpa" for v
    using assms(2) labels_distinct(1) by (simp add: getitem_setitem)
  show ?thesis
    by (simp only: analyze_student_grades_def Let_def assms(1) g assms(3) sum.case
          keep_zip select_zip_fst)
qed

lemma analyze_result_cases:
  assumes "fst (analyze_student_grades conv df) = Inr (earned, remaining, passed)"
  shows "\<exists>cs gpa points. getitem df credits_label = Inr cs \<and> getitem df gpa_label = Inr gpa \<and>
      series_apply parse_gpa_to_numeric gpa = Inr points"
proof (cases "getitem df credits_label")
  case (Inl e)
  with assms show ?thesis by (simp add: analyze_student_grades_def)
next
  case cs: (Inr cs)
  have g: "getitem (setitem df credits_label v) gpa_label = getitem df gpa_label" for v
    using labels_distinct(1) by (simp add: getitem_setitem)
  show ?thesis
  proof (cases "getitem df gpa_label")
    case (Inl e)
    with assms cs show ?thesis by (simp only: analyze_student_grades_def Let_def g sum.case fst_conv) simp
  next
    case gpa: (Inr gpa)
    show ?thesis
    proof (cases "series_apply parse_gpa_to_numeric gpa")
      case (Inl e)
      with assms cs gpa show ?thesis
        by (simp only: analyze_student_grades_def Let_def g sum.case fst_conv) simp
    next
      case (Inr points)
      with cs gpa show ?thesis by blast
    qed
  qed
qed

lemmas run_simps = analyze_student_grades_def getitem_def setitem_def select_rows_def select_def
  credits_label_def gpa_label_def gpa_numeric_label_def passed_label_def GRADUATION_REQUIREMENT_def
  ascii_def fillna_def int_literal_def digits_value_def strip_def isspace_def dict_get_def
  gpa_map_def Let_def spec_passes_def column_dtype_def seen_float_def seen_uint_def
  seen_sint_def wrap_def to_numeric_simps

lemma passing_sum_nonneg:
  "0 \<le> sum_list (map fst (filter (\<lambda>(c, p). spec_passes p c) zs))"
  by (rule sum_list_nonneg) (auto simp: spec_passes_def)

lemma passing_sum_le_positive:
  "sum_list (map fst (filter (\<lambda>(c, p). spec_passes p c) (zip xs ys)))
     \<le> sum_list (filter (\<lambda>x. 0 < x) xs)"
proof (induction xs arbitrary: ys)
  case Nil then show ?case by simp
next
  case (Cons x xs)
  show ?case
  proof (cases ys)
    case Nil
    have "0 \<le> sum_list (filter (\<lambda>x. 0 < x) (x # xs))"
      by (rule sum_list_nonneg) (simp only: set_filter, auto)
    with Nil show ?thesis by simp
  next
    case (Cons y ys')
    with Cons.IH [of ys'] show ?thesis by (auto simp: spec_passes_def)
  qed
qed

lemma passing_sum_Ints:
  assumes "column_dtype (map (read_number conv) cs) \<noteq> Float64"
  shows "sum_list (map fst (filter P (zip (map (\<lambda>c. fillna 0 (to_numeric conv c)) cs) points))) \<in> \<int>"
proof (rule sum_list_Ints)
  fix x
  assume "x \<in> set (map fst (filter P (zip (map (\<lambda>c. fillna 0 (to_numeric conv c)) cs) points)))"
  with passing_subset have "x \<in> set (map (\<lambda>c. fillna 0 (to_numeric conv c)) cs)"
    by (rule subsetD)
  with assms show "x \<in> \<int>" by (rule credits_Ints)
qed

lemma wrap_passing_sum:
  assumes s: "s = sum_list (map fst (filter P (zip (map (\<lambda>c. fillna 0 (to_numeric conv c)) cs) points)))"
    and "s < 2 ^ 63" and "0 \<le> s"
  shows "wrap (column_dtype (map (read_number conv) cs)) s = s"
proof (cases "column_dtype (map (read_number conv) cs)")
  case Float64
  then show ?thesis by simp
next
  case Int64
  then have "column_dtype (map (read_number conv) cs) \<noteq> Float64" by simp
  then have "s \<in> \<int>"
    unfolding s by (rule passing_sum_Ints)
  then obtain k where k: "s = of_int k" by (auto elim: Ints_cases)
  with assms(2,3) have "- (2 ^ 63) \<le> k" "k < 2 ^ 63" by simp_all
  then show ?thesis unfolding Int64 k by (rule wrap_Int64_id)
next
  case UInt64
  then have "column_dtype (map (read_number conv) cs) \<noteq> Float64" by simp
  then have "s \<in> \<int>"
    unfolding s by (rule passing_sum_Ints)
  then obtain k where k: "s = of_int k" by (auto elim: Ints_cases)
  with assms(2,3) have "0 \<le> k" "k < 2 ^ 64" by simp_all
  then show ?thesis unfolding UInt64 k by (rule wrap_UInt64_id)
qed

text \<open>
  Claim C1, as the code has it. A record passes exactly when its grade point is at
  least 1.7 and its coerced credits are greater than 0, and the passed courses are
  the rows at the positions of the passing records, for every frame with a credits
  column and a column of grade texts. The total of earned credits is the sum of the
  credits of exactly the passing records as the type of the credits column holds it:
  it is that sum whenever the sum is less than \<open>2^63\<close>, and beyond that the sum of a
  column of 64-bit integers wraps around.
\<close>

theorem earned_credits_sum_unless_wrapped:
  assumes "getitem df credits_label = Inr cs"
    and "getitem df gpa_label = Inr (map Str gs)"
  shows
    "let dt = column_dtype (map (read_number conv) cs);
         credits = map (\<lambda>c. fillna 0 (to_numeric conv c)) cs;
         points = map (\<lambda>g. dict_get gpa_map (strip g) 0) gs;
         passing = filter (\<lambda>(c, p). spec_passes p c) (zip credits points)
     in (\<exists>remaining.
          fst (analyze_student_grades conv df) =
            Inr (wrap dt (sum_list (map fst passing)), remaining,
                 select_rows (snd (analyze_student_grades conv df))
                   (map (\<lambda>(c, p). spec_passes p c) (zip credits points)))) \<and>
        (sum_list (map fst passing) < 2 ^ 63 \<longrightarrow>
           wrap dt (sum_list (map fst passing)) = sum_list (map fst passing))"
proof -
  have a: "\<exists>remaining.
          fst (analyze_student_grades conv df) =
            Inr (wrap (column_dtype (map (read_number conv) cs))
                   (sum_list (map fst (filter (\<lambda>(c, p). spec_passes p c)
                      (zip (map (\<lambda>c. fillna 0 (to_numeric conv c)) cs)
                           (map (\<lambda>g. dict_get gpa_map (strip g) 0) gs))))), remaining,
                 select_rows (snd (analyze_student_grades conv df))
                   (map (\<lambda>(c, p). spec_passes p c)
                      (zip (map (\<lambda>c. fillna 0 (to_numeric conv c)) cs)
                           (map (\<lambda>g. dict_get gpa_map (strip g) 0) gs))))"
    using analyze_Inr [OF assms series_apply_Str, of conv]
    by (simp only: Let_def fst_conv snd_conv) blast
  have b: "sum_list (map fst (filter (\<lambda>(c, p). spec_passes p c)
                      (zip (map (\<lambda>c. fillna 0 (to_numeric conv c)) cs)
                           (map (\<lambda>g. dict_get gpa_map (strip g) 0) gs)))) < 2 ^ 63 \<longrightarrow>
        wrap (column_dtype (map (read_number conv) cs))
          (sum_list (map fst (filter (\<lambda>(c, p). spec_passes p c)
                      (zip (map (\<lambda>c. fillna 0 (to_numeric conv c)) cs)
                           (map (\<lambda>g. dict_get gpa_map (strip g) 0) gs))))) =
        sum_list (map fst (filter (\<lambda>(c, p). spec_passes p c)
                      (zip (map (\<lambda>c. fillna 0 (to_numeric conv c)) cs)
                           (map (\<lambda>g. dict_get gpa_map (strip g) 0) gs))))"
    using wrap_passing_sum [OF refl _ passing_sum_nonneg] by blast
  from a b show ?thesis by (simp only: Let_def)
qed

theorem earned_credits_sum_unless_wrapped_witness:
  "getitem
     [(credits_label, [Str (ascii ''3''), Str (ascii ''0''), Str (ascii ''1''), Str (ascii ''2'')]),
      (gpa_label, [Str (ascii ''A''), Str [36890, 36942], Str (ascii ''F''), Str (ascii ''C-'')])]
     credits_label
     = Inr [Str (ascii ''3''), Str (ascii ''0''), Str (ascii ''1''), Str (ascii ''2'')] \<and>
   getitem
     [(credits_label, [Str (ascii ''3''), Str (ascii ''0''), Str (ascii ''1''), Str (ascii ''2'')]),
      (gpa_label, [Str (ascii ''A''), Str [36890, 36942], Str (ascii ''F''), Str (ascii ''C-'')])]
     gpa_label
     = Inr (map Str [ascii ''A'', [36890, 36942], ascii ''F'', ascii ''C-'']) \<and>
   (5::real) < 2 ^ 63 \<and>
   (\<exists>remaining passed.
      fst (analyze_student_grades int_literal
        [(credits_label, [Str (ascii ''3''), Str (ascii ''0''), Str (ascii ''1''), Str (ascii ''2'')]),
         (gpa_label, [Str (ascii ''A''), Str [36890, 36942], Str (ascii ''F''), Str (ascii ''C-'')])])
      = Inr (5, remaining, passed))"
proof -
  let ?df = "[(credits_label, [Str (ascii ''3''), Str (ascii ''0''), Str (ascii ''1''), Str (ascii ''2'')]),
      (gpa_label, [Str (ascii ''A''), Str [36890, 36942], Str (ascii ''F''), Str (ascii ''C-'')])]"
  have h1: "getitem ?df credits_label
      = Inr [Str (ascii ''3''), Str (ascii ''0''), Str (ascii ''1''), Str (ascii ''2'')]"
    by (simp add: getitem_def credits_label_def gpa_label_def ascii_def)
  have h2: "getitem ?df gpa_label
      = Inr (map Str [ascii ''A'', [36890, 36942], ascii ''F'', ascii ''C-''])"
    by (simp add: getitem_def credits_label_def gpa_label_def ascii_def)
  have s: "sum_list (map fst (filter (\<lambda>(c, p). spec_passes p c)
        (zip (map (\<lambda>c. fillna 0 (to_numeric int_literal c))
                [Str (ascii ''3''), Str (ascii ''0''), Str (ascii ''1''), Str (ascii ''2'')])
             (map (\<lambda>g. dict_get gpa_map (strip g) 0)
                [ascii ''A'', [36890, 36942], ascii ''F'', ascii ''C-''])))) = 5"
    by (simp add: run_simps)
  have b: "(5::real) < 2 ^ 63" by simp
  from earned_credits_sum_unless_wrapped [OF h1 h2, of int_literal]
  have "\<exists>remaining passed. fst (analyze_student_grades int_literal ?df) = Inr (5, remaining, passed)"
    unfolding Let_def s using b by auto
  with h1 h2 b show ?thesis by (intro conjI)
qed

text \<open>
  As first stated, for every sequence of records, claim C1 fails: the credits
  \<open>9223372036854775807\<close> and \<open>1\<close>, both passed, make a column of 64-bit integers,
  and its sum is \<open>-2^63\<close>, not the \<open>2^63\<close> that the credits add up to.
\<close>

theorem earned_credits_wrap_counterexample:
  "fst (analyze_student_grades int_literal
     [(credits_label, [Str (ascii ''9223372036854775807''), Str (ascii ''1'')]),
      (gpa_label, [Str (ascii ''A''), Str (ascii ''A'')])])
   = Inr (- 9223372036854775808, 0,
        [(credits_label, [Num 9223372036854775807, Num 1]),
         (gpa_label, [Str (ascii ''A''), Str (ascii ''A'')]),
         (gpa_numeric_label, [Num 4, Num 4]), (passed_label, [Flag True, Flag True])]) \<and>
   sum_list (map fst (filter (\<lambda>(c, p). spec_passes p c)
      [(9223372036854775807, 4), (1, 4)])) = (9223372036854775808 :: real)"
  by (simp add: run_simps)

lemma analyze_Inr_shape:
  assumes "fst (analyze_student_grades conv df) = Inr (earned, remaining, passed)"
  shows "\<exists>cs gpa points credits dt.
      getitem df credits_label = Inr cs \<and> getitem df gpa_label = Inr gpa \<and>
      series_apply parse_gpa_to_numeric gpa = Inr points \<and>
      credits = map (\<lambda>c. fillna 0 (to_numeric conv c)) cs \<and>
      dt = column_dtype (map (read_number conv) cs) \<and>
      earned = wrap dt (sum_list (map fst (filter (\<lambda>(c, p). spec_passes p c) (zip credits points)))) \<and>
      remaining = max 0 (wrap dt (GRADUATION_REQUIREMENT - earned)) \<and>
      passed = select_rows (snd (analyze_student_grades conv df))
                 (map (\<lambda>(c, p). spec_passes p c) (zip credits points)) \<and>
      snd (analyze_student_grades conv df) =
        setitem (setitem (setitem df credits_label (map Num credits))
           gpa_numeric_label (map Num points)) passed_label (map Flag (map (\<lambda>x. x \<ge> 1.7) points))"
proof -
  from analyze_result_cases [OF assms] obtain cs gpa points where
    h: "getitem df credits_label = Inr cs" "getitem df gpa_label = Inr gpa"
       "series_apply parse_gpa_to_numeric gpa = Inr points"
    by blast
  note r = analyze_Inr [OF h, of conv, unfolded Let_def]
  from assms have eq: "(earned, remaining, passed) =
      (wrap (column_dtype (map (read_number conv) cs))
         (sum_list (map fst (filter (\<lambda>(c, p). spec_passes p c)
          (zip (map (\<lambda>c. fillna 0 (to_numeric conv c)) cs) points)))),
       max 0 (wrap (column_dtype (map (read_number conv) cs))
         (GRADUATION_REQUIREMENT - wrap (column_dtype (map (read_number conv) cs))
           (sum_list (map fst (filter (\<lambda>(c, p). spec_passes p c)
             (zip (map (\<lambda>c. fillna 0 (to_numeric conv c)) cs) points)))))),
       select_rows (setitem (setitem (setitem df credits_label
            (map Num (map (\<lambda>c. fillna 0 (to_numeric conv c)) cs)))
           gpa_numeric_label (map Num points)) passed_label (map Flag (map (\<lambda>x. x \<ge> 1.7) points)))
         (map (\<lambda>(c, p). spec_passes p c) (zip (map (\<lambda>c. fillna 0 (to_numeric conv c)) cs) points)))"
    unfolding r fst_conv by (simp only: sum.inject)
  have s: "snd (analyze_student_grades conv df) =
        setitem (setitem (setitem df credits_label (map Num (map (\<lambda>c. fillna 0 (to_numeric conv c)) cs)))
           gpa_numeric_label (map Num points)) passed_label (map Flag (map (\<lambda>x. x \<ge> 1.7) points))"
    unfolding r snd_conv ..
  from eq have "earned = wrap (column_dtype (map (read_number conv) cs))
        (sum_list (map fst (filter (\<lambda>(c, p). spec_passes p c)
        (zip (map (\<lambda>c. fillna 0 (to_numeric conv c)) cs) points))))"
    and "remaining = max 0 (wrap (column_dtype (map (read_number conv) cs))
        (GRADUATION_REQUIREMENT - earned))"
    and "passed = select_rows (snd (analyze_student_grades conv df))
        (map (\<lambda>(c, p). spec_passes p c) (zip (map (\<lambda>c. fillna 0 (to_numeric conv c)) cs) points))"
    unfolding s by (simp_all only: prod.inject)
  moreover note s
  ultimately show ?thesis using h by blast
qed

lemma wrap_sub_Int64:
  assumes "k < 2 ^ 63" "129 - 2 ^ 63 \<le> k"
  shows "wrap Int64 (128 - of_int k) = 128 - of_int k"
proof -
  have "wrap Int64 (of_int (128 - k)) = of_int (128 - k)"
    using assms by (intro wrap_Int64_id) simp_all
  then show ?thesis by simp
qed

lemma wrap_sub_UInt64:
  assumes "0 \<le> k" "k \<le> 128"
  shows "wrap UInt64 (128 - of_int k) = 128 - of_int k"
proof -
  have "wrap UInt64 (of_int (128 - k)) = of_int (128 - k)"
    using assms by (intro wrap_UInt64_id) simp_all
  then show ?thesis by simp
qed

lemma elem_le_sum_list_nonneg:
  "(\<And>y. y \<in> set xs \<Longrightarrow> 0 \<le> y) \<Longrightarrow> x \<in> set xs \<Longrightarrow> x \<le> sum_list (xs :: real list)"
proof (induction xs)
  case Nil then show ?case by simp
next
  case (Cons a xs)
  have n: "0 \<le> sum_list xs" using Cons.prems(1) by (intro sum_list_nonneg) simp
  have a: "0 \<le> a" using Cons.prems(1) by simp
  show ?case
  proof (cases "x = a")
    case True with n show ?thesis by simp
  next
    case False
    with Cons.prems have "x \<in> set xs" by simp
    with Cons.IH Cons.prems(1) have "x \<le> sum_list xs" by simp
    with a show ?thesis by simp
  qed
qed

text \<open>
  Claim C3, as the code has it. The remaining credits are never negative. They are
  \<open>max 0 (128 - total)\<close>, and so 0 once the total exceeds 128, whenever the
  subtraction stays within the type of the credits column: always for \<open>float64\<close>,
  for \<open>int64\<close> when the total is at least \<open>129 - 2^63\<close>, for \<open>uint64\<close> when the
  total is at most 128. Outside of that the subtraction wraps around.
\<close>

theorem remaining_clamped_unless_wrapped:
  assumes "fst (analyze_student_grades conv df) = Inr (earned, remaining, passed)"
    and "getitem df credits_label = Inr cs"
  shows "0 \<le> remaining \<and>
    (column_dtype (map (read_number conv) cs) = Float64 \<or>
     column_dtype (map (read_number conv) cs) = Int64 \<and> 129 - 2 ^ 63 \<le> earned \<or>
     column_dtype (map (read_number conv) cs) = UInt64 \<and> earned \<le> 128 \<longrightarrow>
       remaining = max 0 (128 - earned) \<and> (128 < earned \<longrightarrow> remaining = 0))"
proof -
  from analyze_Inr_shape [OF assms(1)] assms(2) obtain s where
    e: "earned = wrap (column_dtype (map (read_number conv) cs)) s"
    and r: "remaining = max 0 (wrap (column_dtype (map (read_number conv) cs)) (128 - earned))"
    by (auto simp: GRADUATION_REQUIREMENT_def)
  have nonneg: "0 \<le> remaining" unfolding r by simp
  have "remaining = max 0 (128 - earned)"
    if "column_dtype (map (read_number conv) cs) = Float64 \<or>
     column_dtype (map (read_number conv) cs) = Int64 \<and> 129 - 2 ^ 63 \<le> earned \<or>
     column_dtype (map (read_number conv) cs) = UInt64 \<and> earned \<le> 128"
    using that
  proof (elim disjE conjE)
    assume "column_dtype (map (read_number conv) cs) = Float64"
    then show ?thesis using r by simp
  next
    assume d: "column_dtype (map (read_number conv) cs) = Int64" and b: "129 - 2 ^ 63 \<le> earned"
    from wrap_Int64_range [of s] e d obtain k where
      k: "earned = of_int k" "k < 2 ^ 63" by auto
    with b have "129 - 2 ^ 63 \<le> k"
      by (metis of_int_le_iff of_int_diff of_int_numeral of_int_power)
    with k have "wrap Int64 (128 - earned) = 128 - earned"
      by (simp only: k(1) wrap_sub_Int64)
    then show ?thesis using r d by simp
  next
    assume d: "column_dtype (map (read_number conv) cs) = UInt64" and b: "earned \<le> 128"
    from wrap_UInt64_range [of s] e d obtain k where
      k: "earned = of_int k" "0 \<le> k" by auto
    with b have "k \<le> 128" by simp
    with k have "wrap UInt64 (128 - earned) = 128 - earned"
      by (simp only: k(1) wrap_sub_UInt64)
    then show ?thesis using r d by simp
  qed
  then show ?thesis using nonneg by auto
qed

theorem remaining_clamped_unless_wrapped_witness:
  "fst (analyze_student_grades int_literal
      [(credits_label, [Str (ascii ''100''), Str (ascii ''30'')]),
       (gpa_label, [Str (ascii ''A''), Str (ascii ''B+'')])])
     = Inr (130, 0,
        [(credits_label, [Num 100, Num 30]), (gpa_label, [Str (ascii ''A''), Str (ascii ''B+'')]),
         (gpa_numeric_label, [Num 4, Num 3.3]), (passed_label, [Flag True, Flag True])]) \<and>
   getitem [(credits_label, [Str (ascii ''100''), Str (ascii ''30'')]),
            (gpa_label, [Str (ascii ''A''), Str (ascii ''B+'')])] credits_label
     = Inr [Str (ascii ''100''), Str (ascii ''30'')] \<and>
   column_dtype (map (read_number int_literal) [Str (ascii ''100''), Str (ascii ''30'')]) = Int64 \<and>
   129 - 2 ^ 63 \<le> (130::real) \<and>
   (0::real) = max 0 (128 - 130) \<and> (0::real) \<le> 0 \<and> (128::real) < 130"
proof -
  have h: "fst (analyze_student_grades int_literal
      [(credits_label, [Str (ascii ''100''), Str (ascii ''30'')]),
       (gpa_label, [Str (ascii ''A''), Str (ascii ''B+'')])])
     = Inr (130, 0,
        [(credits_label, [Num 100, Num 30]), (gpa_label, [Str (ascii ''A''), Str (ascii ''B+'')]),
         (gpa_numeric_label, [Num 4, Num 3.3]), (passed_label, [Flag True, Flag True])])"
    by (simp add: run_simps)
  have g: "getitem [(credits_label, [Str (ascii ''100''), Str (ascii ''30'')]),
            (gpa_label, [Str (ascii ''A''), Str (ascii ''B+'')])] credits_label
     = Inr [Str (ascii ''100''), Str (ascii ''30'')]"
    by (simp add: getitem_def)
  have d: "column_dtype (map (read_number int_literal) [Str (ascii ''100''), Str (ascii ''30'')]) = Int64
      \<and> 129 - 2 ^ 63 \<le> (130::real)"
    by (simp add: run_simps)
  from remaining_clamped_unless_wrapped [OF h g] d
  have "(0::real) \<le> 0 \<and> (0::real) = max 0 (128 - 130) \<and> ((128::real) < 130 \<longrightarrow> (0::real) = 0)"
    by blast
  with h g d show ?thesis by simp
qed

text \<open>
  As first stated, for every total, claim C3 fails: the credits
  \<open>9223372036854775807\<close> and \<open>100\<close>, both passed, give the total \<open>99 - 2^63\<close>,
  and \<open>128 - total\<close> wraps around to a negative number, so that the remaining
  credits are 0 and not \<open>max 0 (128 - total)\<close>.
\<close>

theorem remaining_wrap_counterexample:
  "fst (analyze_student_grades int_literal
     [(credits_label, [Str (ascii ''9223372036854775807''), Str (ascii ''100'')]),
      (gpa_label, [Str (ascii ''A''), Str (ascii ''A'')])])
   = Inr (- 9223372036854775709, 0,
        [(credits_label, [Num 9223372036854775807, Num 100]),
         (gpa_label, [Str (ascii ''A''), Str (ascii ''A'')]),
         (gpa_numeric_label, [Num 4, Num 4]), (passed_label, [Flag True, Flag True])]) \<and>
   (0::real) \<noteq> max 0 (128 - (- 9223372036854775709))"
  by (simp add: run_simps)

text \<open>
  A credits text of \<open>2^63\<close> makes the column \<open>uint64\<close>: the total is \<open>2^63\<close> and
  \<open>128 - total\<close> wraps around to \<open>2^63 + 128\<close>, which are then the remaining credits.
\<close>

lemma uint64_remaining_wraps:
  "fst (analyze_student_grades int_literal
     [(credits_label, [Str (ascii ''9223372036854775808'')]),
      (gpa_label, [Str (ascii ''A'')])])
   = Inr (9223372036854775808, 9223372036854775936,
        [(credits_label, [Num 9223372036854775808]), (gpa_label, [Str (ascii ''A'')]),
         (gpa_numeric_label, [Num 4]), (passed_label, [Flag True])])"
  by (simp add: run_simps)

text \<open>
  Claim C10, as the code has it. For every frame, also one with negative credits,
  whose credits greater than 0 add up to less than \<open>2^63\<close>, the total of earned
  credits is at least 0 and the remaining credits lie between 0 and 128, since only
  credits greater than 0 are summed. Beyond that the sum of a column of 64-bit
  integers wraps around.
\<close>

theorem totals_within_bounds_unless_wrapped:
  assumes "fst (analyze_student_grades conv df) = Inr (earned, remaining, passed)"
    and "getitem df credits_label = Inr cs"
    and "sum_list (filter (\<lambda>x. 0 < x) (map (\<lambda>c. fillna 0 (to_numeric conv c)) cs)) < 2 ^ 63"
  shows "0 \<le> earned \<and> 0 \<le> remaining \<and> remaining \<le> 128"
proof -
  let ?dt = "column_dtype (map (read_number conv) cs)"
  let ?credits = "map (\<lambda>c. fillna 0 (to_numeric conv c)) cs"
  from analyze_Inr_shape [OF assms(1)] assms(2) obtain points where
    e: "earned = wrap ?dt (sum_list (map fst (filter (\<lambda>(c, p). spec_passes p c) (zip ?credits points))))"
    and r: "remaining = max 0 (wrap ?dt (128 - earned))"
    by (auto simp: GRADUATION_REQUIREMENT_def)
  let ?s = "sum_list (map fst (filter (\<lambda>(c, p). spec_passes p c) (zip ?credits points)))"
  have s0: "0 \<le> ?s" by (rule passing_sum_nonneg)
  have "?s \<le> sum_list (filter (\<lambda>x. 0 < x) ?credits)" by (rule passing_sum_le_positive)
  with assms(3) have s1: "?s < 2 ^ 63" by simp
  have es: "earned = ?s" unfolding e by (rule wrap_passing_sum [OF refl s1 s0])
  have nu: "?dt \<noteq> UInt64"
  proof
    assume "?dt = UInt64"
    from column_dtype_UInt64 [OF this] obtain n where
      n: "Some (Whole n) \<in> set (map (read_number conv) cs)" "2 ^ 63 \<le> n" by blast
    then obtain c where c: "c \<in> set cs" "read_number conv c = Some (Whole n)" by auto
    then have v: "fillna 0 (to_numeric conv c) = of_int n"
      by (simp add: to_numeric_def fillna_def)
    from n(2) have big: "(2 ^ 63 :: real) \<le> of_int n"
      by (metis of_int_le_iff of_int_numeral of_int_power)
    with c(1) v have "of_int n \<in> set (filter (\<lambda>x. 0 < x) ?credits)"
      by (auto simp: image_iff intro!: bexI [of _ c])
    then have "of_int n \<le> sum_list (filter (\<lambda>x. 0 < x) ?credits)"
      by (intro elem_le_sum_list_nonneg) auto
    with big assms(3) show False by simp
  qed
  have "wrap ?dt (128 - earned) = 128 - earned"
  proof (cases ?dt)
    case Float64 then show ?thesis by simp
  next
    case UInt64 with nu show ?thesis by simp
  next
    case Int64
    then have "?dt \<noteq> Float64" by simp
    then have "?s \<in> \<int>" by (rule passing_sum_Ints)
    then obtain k where k: "?s = of_int k" by (auto elim: Ints_cases)
    with s0 s1 have "0 \<le> k" "k < 2 ^ 63" by simp_all
    then have "wrap Int64 (128 - of_int k) = 128 - of_int k"
      by (intro wrap_sub_Int64) simp_all
    then show ?thesis unfolding Int64 es k .
  qed
  with r have "remaining = max 0 (128 - earned)" by simp
  with es s0 show ?thesis by simp
qed

theorem totals_within_bounds_unless_wrapped_witness:
  "fst (analyze_student_grades int_literal
      [(credits_label, [Str (ascii ''-3''), Str (ascii ''4'')]),
       (gpa_label, [Str (ascii ''A''), Str (ascii ''B'')])])
     = Inr (4, 124,
        [(credits_label, [Num 4]), (gpa_label, [Str (ascii ''B'')]),
         (gpa_numeric_label, [Num 3]), (passed_label, [Flag True])]) \<and>
   getitem [(credits_label, [Str (ascii ''-3''), Str (ascii ''4'')]),
            (gpa_label, [Str (ascii ''A''), Str (ascii ''B'')])] credits_label
     = Inr [Str (ascii ''-3''), Str (ascii ''4'')] \<and>
   sum_list (filter (\<lambda>x. 0 < x)
      (map (\<lambda>c. fillna 0 (to_numeric int_literal c)) [Str (ascii ''-3''), Str (ascii ''4'')])) < 2 ^ 63 \<and>
   (0::real) \<le> 4 \<and> (0::real) \<le> 124 \<and> (124::real) \<le> 128"
proof -
  have h: "fst (analyze_student_grades int_literal
      [(credits_label, [Str (ascii ''-3''), Str (ascii ''4'')]),
       (gpa_label, [Str (ascii ''A''), Str (ascii ''B'')])])
     = Inr (4, 124,
        [(credits_label, [Num 4]), (gpa_label, [Str (ascii ''B'')]),
         (gpa_numeric_label, [Num 3]), (passed_label, [Flag True])])"
    by (simp add: run_simps)
  have g: "getitem [(credits_label, [Str (ascii ''-3''), Str (ascii ''4'')]),
            (gpa_label, [Str (ascii ''A''), Str (ascii ''B'')])] credits_label
     = Inr [Str (ascii ''-3''), Str (ascii ''4'')]"
    by (simp add: getitem_def)
  have b: "sum_list (filter (\<lambda>x. 0 < x)
      (map (\<lambda>c. fillna 0 (to_numeric int_literal c)) [Str (ascii ''-3''), Str (ascii ''4'')])) < 2 ^ 63"
    by (simp add: run_simps)
  show ?thesis
    using h g b totals_within_bounds_unless_wrapped [OF h g b]
    by - (elim conjE, intro conjI, assumption+)
qed

text \<open>
  As first stated, for every sequence of records, claim C10 fails: the credits
  \<open>9223372036854775807\<close> and \<open>2\<close>, both passed, give the total \<open>1 - 2^63\<close>, which
  is negative.
\<close>

theorem totals_wrap_counterexample:
  "fst (analyze_student_grades int_literal
     [(credits_label, [Str (ascii ''9223372036854775807''), Str (ascii ''2'')]),
      (gpa_label, [Str (ascii ''A''), Str (ascii ''A'')])])
   = Inr (- 9223372036854775807, 0,
        [(credits_label, [Num 9223372036854775807, Num 2]),
         (gpa_label, [Str (ascii ''A''), Str (ascii ''A'')]),
         (gpa_numeric_label, [Num 4, Num 4]), (passed_label, [Flag True, Flag True])]) \<and>
   \<not> (0 \<le> (- 9223372036854775807 :: real))"
  by (simp add: run_simps)

text \<open>
  Claim C8. A frame that has the credits and grade columns and no rows is analysed
  without an error: the total is 0, the remaining credits are 128 and the frame of
  passed courses has no rows.
\<close>

theorem empty_frame_is_valid:
  assumes "getitem df credits_label = Inr []" and "getitem df gpa_label = Inr []"
  shows "\<exists>passed. fst (analyze_student_grades conv df) = Inr (0, 128, passed) \<and>
           list_all (\<lambda>(k, col). col = []) passed \<and> nrows passed = 0"
proof -
  have a: "series_apply parse_gpa_to_numeric [] = Inr []" by simp
  have e: "list_all (\<lambda>(k, col). col = []) (select_rows d [])" for d :: "cell frame"
    by (simp add: select_rows_def select_def list_all_iff split_beta)
  have n: "nrows (select_rows d []) = 0" for d :: "cell frame"
    by (cases d) (auto simp: select_rows_def select_def nrows_def)
  show ?thesis
    using analyze_Inr [OF assms a, of conv] e n
    by (simp add: Let_def GRADUATION_REQUIREMENT_def column_dtype_def wrap_def)
qed

theorem empty_frame_is_valid_witness:
  "getitem (map (\<lambda>k. (k, [])) expected_columns) credits_label = Inr ([] :: cell list) \<and>
   getitem (map (\<lambda>k. (k, [])) expected_columns) gpa_label = Inr ([] :: cell list) \<and>
   (\<exists>passed. fst (analyze_student_grades int_literal (map (\<lambda>k. (k, [])) expected_columns))
        = Inr (0, 128, passed) \<and> list_all (\<lambda>(k, col). col = []) passed \<and> nrows passed = 0)"
proof -
  have h1: "getitem (map (\<lambda>k. (k, [])) expected_columns) credits_label = Inr ([] :: cell list)"
    by (simp add: getitem_def expected_columns_def year_label_def term_label_def
          course_code_label_def course_name_label_def credits_label_def gpa_label_def ascii_def)
  have h2: "getitem (map (\<lambda>k. (k, [])) expected_columns) gpa_label = Inr ([] :: cell list)"
    by (simp add: getitem_def expected_columns_def year_label_def term_label_def
          course_code_label_def course_name_label_def credits_label_def gpa_label_def ascii_def)
  show ?thesis using h1 h2 empty_frame_is_valid [OF h1 h2, of int_literal] by (intro conjI)
qed

lemma analyze_frame_cases:
  "snd (analyze_student_grades conv df) = df \<and> (\<exists>e. getitem df credits_label = Inl e) \<or>
   (\<exists>cs. getitem df credits_label = Inr cs \<and>
      snd (analyze_student_grades conv df) =
        setitem df credits_label (map Num (map (\<lambda>c. fillna 0 (to_numeric conv c)) cs))) \<or>
   (\<exists>cs points. getitem df credits_label = Inr cs \<and>
      snd (analyze_student_grades conv df) =
        setitem (setitem (setitem df credits_label (map Num (map (\<lambda>c. fillna 0 (to_numeric conv c)) cs)))
           gpa_numeric_label (map Num points)) passed_label (map Flag (map (\<lambda>x. x \<ge> 1.7) points)))"
proof (cases "getitem df credits_label")
  case (Inl e)
  then show ?thesis by (simp add: analyze_student_grades_def)
next
  case cs: (Inr cs)
  have g: "getitem (setitem df credits_label v) gpa_label = getitem df gpa_label" for v
    using labels_distinct(1) by (simp add: getitem_setitem)
  show ?thesis
  proof (cases "getitem df gpa_label")
    case (Inl e)
    with cs show ?thesis
      by (simp only: analyze_student_grades_def Let_def g sum.case snd_conv) simp
  next
    case gpa: (Inr gpa)
    show ?thesis
    proof (cases "series_apply parse_gpa_to_numeric gpa")
      case (Inl e)
      with cs gpa show ?thesis
        by (simp only: analyze_student_grades_def Let_def g sum.case snd_conv) simp
    next
      case (Inr points)
      from analyze_Inr [OF cs gpa Inr, of conv] cs show ?thesis
        by (simp only: Let_def snd_conv) blast
    qed
  qed
qed

text \<open>
  Claim C6, as the code has it. The coercion makes every credits value a number
  and puts 0 where the text cannot be read, without an error; the number keeps its
  sign, so a text that reads as a negative number leaves a negative credits value.
  Where no value reads as a negative number, every credits value is a number that
  is at least 0.
\<close>

theorem credits_coerced_to_numbers:
  assumes "getitem df credits_label = Inr cs"
  shows "getitem (snd (analyze_student_grades conv df)) credits_label =
           Inr (map (\<lambda>c. Num (case to_numeric conv c of None \<Rightarrow> 0 | Some x \<Rightarrow> x)) cs) \<and>
         ((\<forall>c x. c \<in> set cs \<and> to_numeric conv c = Some x \<longrightarrow> 0 \<le> x) \<longrightarrow>
            spec_credits_ok (map (\<lambda>c. Num (case to_numeric conv c of None \<Rightarrow> 0 | Some x \<Rightarrow> x)) cs))"
proof
  have m: "map Num (map (\<lambda>c. fillna 0 (to_numeric conv c)) cs) =
      map (\<lambda>c. Num (case to_numeric conv c of None \<Rightarrow> 0 | Some x \<Rightarrow> x)) cs"
    by (simp add: fillna_def)
  from analyze_frame_cases [of conv df] assms
  show "getitem (snd (analyze_student_grades conv df)) credits_label =
           Inr (map (\<lambda>c. Num (case to_numeric conv c of None \<Rightarrow> 0 | Some x \<Rightarrow> x)) cs)"
    unfolding m [symmetric]
    by (elim disjE exE conjE) (simp_all add: getitem_setitem labels_distinct)
  show "(\<forall>c x. c \<in> set cs \<and> to_numeric conv c = Some x \<longrightarrow> 0 \<le> x) \<longrightarrow>
     spec_credits_ok (map (\<lambda>c. Num (case to_numeric conv c of None \<Rightarrow> 0 | Some x \<Rightarrow> x)) cs)"
    by (auto simp: spec_credits_ok_def list_all_iff split: option.splits)
qed

theorem credits_coerced_to_numbers_witness:
  "getitem [(credits_label, [Str (ascii ''abc''), Str (ascii ''3'')]),
            (gpa_label, [Str (ascii ''A''), Str (ascii ''B'')])] credits_label
     = Inr [Str (ascii ''abc''), Str (ascii ''3'')] \<and>
   to_numeric int_literal (Str (ascii ''abc'')) = None \<and>
   to_numeric int_literal (Str (ascii ''3'')) = Some 3 \<and> (0::real) \<le> 3 \<and>
   getitem (snd (analyze_student_grades int_literal
      [(credits_label, [Str (ascii ''abc''), Str (ascii ''3'')]),
       (gpa_label, [Str (ascii ''A''), Str (ascii ''B'')])])) credits_label = Inr [Num 0, Num 3] \<and>
   spec_credits_ok [Num 0, Num 3]"
proof -
  have h: "getitem [(credits_label, [Str (ascii ''abc''), Str (ascii ''3'')]),
            (gpa_label, [Str (ascii ''A''), Str (ascii ''B'')])] credits_label
     = Inr [Str (ascii ''abc''), Str (ascii ''3'')]"
    by (simp add: getitem_def)
  have v: "to_numeric int_literal (Str (ascii ''abc'')) = None"
    "to_numeric int_literal (Str (ascii ''3'')) = Some 3"
    by (simp_all add: run_simps)
  have n: "\<forall>c x. c \<in> set [Str (ascii ''abc''), Str (ascii ''3'')] \<and> to_numeric int_literal c = Some x
       \<longrightarrow> 0 \<le> x"
    using v by auto
  have m: "map (\<lambda>c. Num (case to_numeric int_literal c of None \<Rightarrow> 0 | Some x \<Rightarrow> x))
      [Str (ascii ''abc''), Str (ascii ''3'')] = [Num 0, Num 3]"
    using v by simp
  from credits_coerced_to_numbers [OF h, of int_literal] n
  have "getitem (snd (analyze_student_grades int_literal
      [(credits_label, [Str (ascii ''abc''), Str (ascii ''3'')]),
       (gpa_label, [Str (ascii ''A''), Str (ascii ''B'')])])) credits_label = Inr [Num 0, Num 3] \<and>
     spec_credits_ok [Num 0, Num 3]"
    unfolding m by blast
  with h v show ?thesis by simp
qed

text \<open>
  As first stated, with every credits value at least 0, claim C6 fails: the credits
  text \<open>-3\<close> is coerced to the number -3.
\<close>

theorem coerced_credits_negative_counterexample:
  "getitem (snd (analyze_student_grades int_literal
      [(credits_label, [Str (ascii ''-3'')]), (gpa_label, [Str (ascii ''A'')])])) credits_label
     = Inr [Num (- 3)] \<and>
   \<not> spec_credits_ok [Num (- 3)]"
  by (simp add: run_simps spec_credits_ok_def)

text \<open>
  Claim C7, as the code has it. The analysis writes into the frame it is given and
  does nothing else: the credits column is overwritten with the coerced numbers,
  the columns \<open>GPA_Numeric\<close> and of the pass marks are written (added when absent),
  and every other column, the grade column among them, is as it was before.
\<close>

theorem analysis_writes_three_columns:
  "(\<forall>k. k \<notin> {credits_label, gpa_numeric_label, passed_label} \<longrightarrow>
        getitem (snd (analyze_student_grades conv df)) k = getitem df k) \<and>
   (\<forall>earned remaining passed.
      fst (analyze_student_grades conv df) = Inr (earned, remaining, passed) \<longrightarrow>
      (\<exists>cs gpa points.
         getitem df credits_label = Inr cs \<and> getitem df gpa_label = Inr gpa \<and>
         series_apply parse_gpa_to_numeric gpa = Inr points \<and>
         getitem (snd (analyze_student_grades conv df)) credits_label =
           Inr (map (\<lambda>c. Num (fillna 0 (to_numeric conv c))) cs) \<and>
         getitem (snd (analyze_student_grades conv df)) gpa_numeric_label = Inr (map Num points) \<and>
         getitem (snd (analyze_student_grades conv df)) passed_label =
           Inr (map (\<lambda>p. Flag (p \<ge> 1.7)) points)))"
proof (intro conjI allI impI)
  fix k assume "k \<notin> {credits_label, gpa_numeric_label, passed_label}"
  then have k: "k \<noteq> credits_label" "k \<noteq> gpa_numeric_label" "k \<noteq> passed_label" by auto
  from analyze_frame_cases [of conv df]
  show "getitem (snd (analyze_student_grades conv df)) k = getitem df k"
    by (elim disjE exE conjE) (simp_all add: getitem_setitem k)
next
  fix earned remaining passed
  assume "fst (analyze_student_grades conv df) = Inr (earned, remaining, passed)"
  from analyze_Inr_shape [OF this] obtain cs gpa points where
    h: "getitem df credits_label = Inr cs" "getitem df gpa_label = Inr gpa"
       "series_apply parse_gpa_to_numeric gpa = Inr points"
    and s: "snd (analyze_student_grades conv df) =
        setitem (setitem (setitem df credits_label (map Num (map (\<lambda>c. fillna 0 (to_numeric conv c)) cs)))
           gpa_numeric_label (map Num points)) passed_label (map Flag (map (\<lambda>x. x \<ge> 1.7) points))"
    by blast
  have "getitem (snd (analyze_student_grades conv df)) credits_label =
           Inr (map (\<lambda>c. Num (fillna 0 (to_numeric conv c))) cs)"
    and "getitem (snd (analyze_student_grades conv df)) gpa_numeric_label = Inr (map Num points)"
    and "getitem (snd (analyze_student_grades conv df)) passed_label =
           Inr (map (\<lambda>p. Flag (p \<ge> 1.7)) points)"
    unfolding s by (simp_all add: getitem_setitem labels_distinct o_def)
  with h show "\<exists>cs gpa points.
         getitem df credits_label = Inr cs \<and> getitem df gpa_label = Inr gpa \<and>
         series_apply parse_gpa_to_numeric gpa = Inr points \<and>
         getitem (snd (analyze_student_grades conv df)) credits_label =
           Inr (map (\<lambda>c. Num (fillna 0 (to_numeric conv c))) cs) \<and>
         getitem (snd (analyze_student_grades conv df)) gpa_numeric_label = Inr (map Num points) \<and>
         getitem (snd (analyze_student_grades conv df)) passed_label =
           Inr (map (\<lambda>p. Flag (p \<ge> 1.7)) points)"
    by blast
qed

theorem analysis_writes_three_columns_witness:
  "year_label \<notin> {credits_label, gpa_numeric_label, passed_label} \<and>
   getitem (snd (analyze_student_grades int_literal
      [(year_label, [Str (ascii ''112'')]), (credits_label, [Str (ascii ''3'')]),
       (gpa_label, [Str (ascii ''A'')])])) year_label = Inr [Str (ascii ''112'')] \<and>
   fst (analyze_student_grades int_literal
      [(year_label, [Str (ascii ''112'')]), (credits_label, [Str (ascii ''3'')]),
       (gpa_label, [Str (ascii ''A'')])])
     = Inr (3, 125,
        [(year_label, [Str (ascii ''112'')]), (credits_label, [Num 3]), (gpa_label, [Str (ascii ''A'')]),
         (gpa_numeric_label, [Num 4]), (passed_label, [Flag True])]) \<and>
   (\<exists>cs gpa points.
      getitem [(year_label, [Str (ascii ''112'')]), (credits_label, [Str (ascii ''3'')]),
               (gpa_label, [Str (ascii ''A'')])] credits_label = Inr cs \<and>
      getitem [(year_label, [Str (ascii ''112'')]), (credits_label, [Str (ascii ''3'')]),
               (gpa_label, [Str (ascii ''A'')])] gpa_label = Inr gpa \<and>
      series_apply parse_gpa_to_numeric gpa = Inr points \<and>
      getitem (snd (analyze_student_grades int_literal
         [(year_label, [Str (ascii ''112'')]), (credits_label, [Str (ascii ''3'')]),
          (gpa_label, [Str (ascii ''A'')])])) credits_label =
        Inr (map (\<lambda>c. Num (fillna 0 (to_numeric int_literal c))) cs) \<and>
      getitem (snd (analyze_student_grades int_literal
         [(year_label, [Str (ascii ''112'')]), (credits_label, [Str (ascii ''3'')]),
          (gpa_label, [Str (ascii ''A'')])])) gpa_numeric_label = Inr (map Num points) \<and>
      getitem (snd (analyze_student_grades int_literal
         [(year_label, [Str (ascii ''112'')]), (credits_label, [Str (ascii ''3'')]),
          (gpa_label, [Str (ascii ''A'')])])) passed_label =
        Inr (map (\<lambda>p. Flag (p \<ge> 1.7)) points))"
proof -
  let ?df = "[(year_label, [Str (ascii ''112'')]), (credits_label, [Str (ascii ''3'')]),
       (gpa_label, [Str (ascii ''A'')])]"
  have h1: "year_label \<notin> {credits_label, gpa_numeric_label, passed_label}"
    by (simp add: year_label_def credits_label_def gpa_numeric_label_def passed_label_def ascii_def)
  have h2: "fst (analyze_student_grades int_literal ?df)
     = Inr (3, 125,
        [(year_label, [Str (ascii ''112'')]), (credits_label, [Num 3]), (gpa_label, [Str (ascii ''A'')]),
         (gpa_numeric_label, [Num 4]), (passed_label, [Flag True])])"
    by (simp add: run_simps year_label_def)
  have g: "getitem ?df year_label = Inr [Str (ascii ''112'')]"
    by (simp add: getitem_def)
  note t = analysis_writes_three_columns [of int_literal ?df]
  from t [THEN conjunct1, rule_format, OF h1] g
  have c1: "getitem (snd (analyze_student_grades int_literal ?df)) year_label
      = Inr [Str (ascii ''112'')]"
    by simp
  note c2 = t [THEN conjunct2, rule_format, OF h2]
  show ?thesis using h1 c1 h2 c2 by (intro conjI)
qed

text \<open>
  As first stated, with the input left unchanged, claim C7 fails: after the analysis
  the frame given has numbers for credits and two more columns.
\<close>

theorem analysis_mutates_input_counterexample:
  "snd (analyze_student_grades int_literal
      [(credits_label, [Str (ascii ''3'')]), (gpa_label, [Str (ascii ''A'')])])
   = [(credits_label, [Num 3]), (gpa_label, [Str (ascii ''A'')]),
      (gpa_numeric_label, [Num 4]), (passed_label, [Flag True])] \<and>
   snd (analyze_student_grades int_literal
      [(credits_label, [Str (ascii ''3'')]), (gpa_label, [Str (ascii ''A'')])])
   \<noteq> [(credits_label, [Str (ascii ''3'')]), (gpa_label, [Str (ascii ''A'')])]"
  by (simp add: run_simps)

section \<open>Properties of the normalisation\<close>

lemma expected_columns_length: "length expected_columns = 6"
  by (simp add: expected_columns_def)

lemma expected_columns_distinct: "distinct expected_columns"
  by (simp add: expected_columns_def year_label_def term_label_def course_code_label_def
        course_name_label_def credits_label_def gpa_label_def ascii_def)

lemma expected_columns_hd: "expected_columns ! 0 = year_label"
  by (simp add: expected_columns_def)

lemma select_Nil [simp]: "select [] xs = []" "select keep [] = []"
  by (simp_all add: select_def)

lemma select_Cons [simp]:
  "select (k # keep) (x # xs) = (if k then x # select keep xs else select keep xs)"
  by (simp add: select_def)

lemma length_rows_of: "cols \<noteq> [] \<Longrightarrow> rect n cols \<Longrightarrow> length (rows_of cols) = n"
  by (induction cols rule: rows_of.induct) (auto simp: rect_def)

lemma select_map2_Cons:
  "length c = length rs \<Longrightarrow> select keep (map2 (#) c rs) = map2 (#) (select keep c) (select keep rs)"
proof (induction keep arbitrary: c rs)
  case Nil then show ?case by simp
next
  case (Cons k keep)
  then show ?case by (cases c; cases rs) auto
qed

lemma rows_of_select:
  "rect n cols \<Longrightarrow> rows_of (map (select keep) cols) = select keep (rows_of cols)"
proof (induction cols rule: rows_of.induct)
  case 1 then show ?case by simp
next
  case (2 c)
  show ?case
  proof (induction keep arbitrary: c)
    case Nil then show ?case by simp
  next
    case (Cons k keep) then show ?case by (cases c) auto
  qed
next
  case (3 c d ds)
  then have r: "rect n (d # ds)" and l: "length c = n" by (auto simp: rect_def)
  have "length (rows_of (d # ds)) = n" using length_rows_of [OF _ r] by simp
  with 3(1) [OF r] l show ?case by (simp add: select_map2_Cons)
qed

lemma select_hd_filter:
  "length c = length rs \<Longrightarrow> select (map P c) (map2 (#) c rs) = filter (\<lambda>r. P (hd r)) (map2 (#) c rs)"
proof (induction c arbitrary: rs)
  case Nil then show ?case by simp
next
  case (Cons x c) then show ?case by (cases rs) auto
qed

lemma select_year_rows:
  assumes "rect n (c # cs)"
  shows "select (map P c) (rows_of (c # cs)) = filter (\<lambda>r. P (hd r)) (rows_of (c # cs))"
proof (cases cs)
  case Nil
  have "select (map P c) (map (\<lambda>x. [x]) c) = filter (\<lambda>r. P (hd r)) (map (\<lambda>x. [x]) c)"
    by (induction c) auto
  with Nil show ?thesis by simp
next
  case (Cons d ds)
  from assms Cons have r: "rect n (d # ds)" and l: "length c = n" by (auto simp: rect_def)
  have "length (rows_of (d # ds)) = n" using length_rows_of [OF _ r] by simp
  with l Cons show ?thesis by (simp add: select_hd_filter)
qed

lemma rows_of_append:
  "length A = length B \<Longrightarrow> rect n A \<Longrightarrow> rect m B \<Longrightarrow>
   rows_of (map2 (@) A B) = rows_of A @ rows_of B"
proof (induction A arbitrary: B rule: rows_of.induct)
  case 1 then show ?case by simp
next
  case (2 c)
  then obtain d where "B = [d]" by (cases B) auto
  then show ?case by simp
next
  case (3 c d ds)
  then obtain c' B' where B: "B = c' # B'" by (cases B) auto
  with 3 obtain d' ds' where B': "B' = d' # ds'" by (cases B') auto
  from 3(3) have rA: "rect n (d # ds)" and lc: "length c = n" by (auto simp: rect_def)
  from 3(4) B B' have rB: "rect m (d' # ds')" and lc': "length c' = m" by (auto simp: rect_def)
  have lA: "length (rows_of (d # ds)) = n" using length_rows_of [OF _ rA] by simp
  have lB: "length (rows_of (d' # ds')) = m" using length_rows_of [OF _ rB] by simp
  have ih: "rows_of (map2 (@) (d # ds) (d' # ds')) = rows_of (d # ds) @ rows_of (d' # ds')"
    using 3(1) [OF _ rA rB] 3(2) B B' by simp
  have "rows_of (map2 (@) (c # d # ds) (c' # d' # ds')) =
        map2 (#) (c @ c') (rows_of (map2 (@) (d # ds) (d' # ds')))"
    by simp
  also have "\<dots> = map2 (#) (c @ c') (rows_of (d # ds) @ rows_of (d' # ds'))"
    by (simp only: ih)
  also have "\<dots> = map2 (#) c (rows_of (d # ds)) @ map2 (#) c' (rows_of (d' # ds'))"
    using lc lA by (simp add: zip_append)
  finally show ?case using B B' by simp
qed

lemma set_columns_six:
  "length tbl = 6 \<Longrightarrow>
   set_columns tbl (take (length tbl) expected_columns) = Inr (zip expected_columns tbl)"
  by (simp add: set_columns_def expected_columns_length)

lemma set_columns_wider:
  "length tbl > 6 \<Longrightarrow> set_columns tbl (take (length tbl) expected_columns) = Inl ValueError"
  by (simp add: set_columns_def expected_columns_length)

lemma getitem_year:
  "length tbl = 6 \<Longrightarrow> getitem (zip expected_columns tbl) year_label = Inr (hd tbl)"
  by (cases tbl) (simp_all add: getitem_def expected_columns_def)

lemma select_rows_zip:
  "select_rows (zip ls tbl) keep = zip ls (map (select keep) tbl)"
  by (simp add: select_rows_def zip_map2)

lemma column_or_missing_zip:
  assumes "distinct ls" "length A = length ls" "i < length ls"
  shows "column_or_missing (zip ls A) (ls ! i) = A ! i"
  using assms by (simp add: column_or_missing_def map_of_zip_nth)

lemma pd_concat_zip:
  assumes "distinct ls" "length A = length ls" "length B = length ls"
  shows "pd_concat (zip ls A) (zip ls B) = zip ls (map2 (@) A B)"
proof -
  have f: "filter (\<lambda>k. k \<notin> set (map fst (zip ls A))) (map fst (zip ls B)) = []"
    using assms by (simp add: filter_empty_conv)
  have "pd_concat (zip ls A) (zip ls B) =
        map (\<lambda>k. (k, column_or_missing (zip ls A) k @ column_or_missing (zip ls B) k)) ls"
    unfolding pd_concat_def f using assms by simp
  also have "\<dots> = zip ls (map2 (@) A B)"
    using assms by (intro nth_equalityI) (simp_all add: column_or_missing_zip)
  finally show ?thesis .
qed

lemma pd_concat_first:
  assumes "distinct ls" "length B = length ls"
  shows "pd_concat [] (zip ls B) = zip ls B"
proof -
  have "pd_concat [] (zip ls B) = map (\<lambda>k. (k, column_or_missing (zip ls B) k)) ls"
    unfolding pd_concat_def using assms by (simp add: column_or_missing_def nrows_def)
  also have "\<dots> = zip ls B"
    using assms by (intro nth_equalityI) (simp_all add: column_or_missing_zip)
  finally show ?thesis .
qed

lemma rect_select: "rect n cols \<Longrightarrow> length keep = n \<Longrightarrow>
    rect (length (filter id keep)) (map (select keep) cols)"
proof -
  have "length xs = length keep \<Longrightarrow> length (select keep xs) = length (filter id keep)"
    for xs :: "'a list"
  proof (induction keep arbitrary: xs)
    case Nil then show ?case by simp
  next
    case (Cons k keep) then show ?case by (cases xs) auto
  qed
  then show "rect n cols \<Longrightarrow> length keep = n \<Longrightarrow>
    rect (length (filter id keep)) (map (select keep) cols)"
    by (auto simp: rect_def list_all_iff)
qed

lemma rect_append: "length A = length B \<Longrightarrow> rect n A \<Longrightarrow> rect m B \<Longrightarrow> rect (n + m) (map2 (@) A B)"
  by (auto simp: rect_def list_all_iff set_zip)

text \<open>One passage of the loop on a table of six columns.\<close>

lemma filtered_table:
  assumes "length tbl = 6" "rect n tbl"
  shows "\<exists>m. rect m (map (select (map year_ok (hd tbl))) tbl) \<and>
     rows_of (map (select (map year_ok (hd tbl))) tbl) = filter (\<lambda>r. year_ok (hd r)) (rows_of tbl)"
proof -
  from assms obtain c cs where t: "tbl = c # cs" by (cases tbl) auto
  with assms have l: "length (map year_ok (hd tbl)) = n" by (simp add: rect_def)
  have "rows_of (map (select (map year_ok (hd tbl))) tbl) = select (map year_ok (hd tbl)) (rows_of tbl)"
    using assms(2) by (rule rows_of_select)
  also have "\<dots> = filter (\<lambda>r. year_ok (hd r)) (rows_of tbl)"
    using select_year_rows [of n c cs year_ok] assms(2) t by simp
  finally show ?thesis using rect_select [OF assms(2) l] by blast
qed

lemma holds_rows_concat:
  assumes "holds_rows full acc" "length cols = 6" "rect m cols"
  shows "holds_rows (pd_concat full (zip expected_columns cols)) (acc @ rows_of cols)"
  using assms(1) unfolding holds_rows_def
proof (elim disjE exE conjE)
  assume "full = []" "acc = []"
  with assms(2,3) show "pd_concat full (zip expected_columns cols) = [] \<and> acc @ rows_of cols = [] \<or>
    (\<exists>cols' n. pd_concat full (zip expected_columns cols) = zip expected_columns cols' \<and>
        length cols' = 6 \<and> rect n cols' \<and> rows_of cols' = acc @ rows_of cols)"
    by (auto simp: pd_concat_first expected_columns_distinct expected_columns_length)
next
  fix old n
  assume o: "full = zip expected_columns old" "length old = 6" "rect n old" "rows_of old = acc"
  have "pd_concat full (zip expected_columns cols) = zip expected_columns (map2 (@) old cols)"
    using o assms(2) by (simp add: pd_concat_zip expected_columns_distinct expected_columns_length)
  moreover have "rect (n + m) (map2 (@) old cols)"
    using o assms by (simp add: rect_append)
  moreover have "rows_of (map2 (@) old cols) = acc @ rows_of cols"
    using o assms by (simp add: rows_of_append)
  moreover have "length (map2 (@) old cols) = 6" using o assms by simp
  ultimately show "pd_concat full (zip expected_columns cols) = [] \<and> acc @ rows_of cols = [] \<or>
    (\<exists>cols' n. pd_concat full (zip expected_columns cols) = zip expected_columns cols' \<and>
        length cols' = 6 \<and> rect n cols' \<and> rows_of cols' = acc @ rows_of cols)"
    by blast
qed

lemma collect_tables_rows:
  assumes "list_all (\<lambda>t. length t \<le> 6 \<and> (\<exists>n. rect n t)) tbls" "holds_rows full acc"
  shows "\<exists>fr. collect_tables tbls full shown =
           (Inr fr, shown @ map SkippedTableWarning (filter (\<lambda>t. length t < 6) tbls)) \<and>
         holds_rows fr (acc @ concat (map (\<lambda>t. filter (\<lambda>r. year_ok (hd r)) (rows_of t))
                                 (filter (\<lambda>t. length t = 6) tbls)))"
  using assms
proof (induction tbls arbitrary: full acc shown)
  case Nil
  then show ?case by simp
next
  case (Cons t ts)
  from Cons.prems(1) have ts: "list_all (\<lambda>t. length t \<le> 6 \<and> (\<exists>n. rect n t)) ts"
    and w: "length t \<le> 6" and r: "\<exists>n. rect n t" by auto
  show ?case
  proof (cases "length t = 6")
    case True
    from r obtain n where n: "rect n t" by blast
    from filtered_table [OF True n] obtain m where
      m: "rect m (map (select (map year_ok (hd t))) t)"
      and f: "rows_of (map (select (map year_ok (hd t))) t) = filter (\<lambda>r. year_ok (hd r)) (rows_of t)"
      by blast
    have h: "holds_rows (pd_concat full (zip expected_columns (map (select (map year_ok (hd t))) t)))
               (acc @ filter (\<lambda>r. year_ok (hd r)) (rows_of t))"
      using holds_rows_concat [OF Cons.prems(2) _ m] True f by simp
    have step: "collect_tables (t # ts) full shown =
       collect_tables ts (pd_concat full (zip expected_columns (map (select (map year_ok (hd t))) t))) shown"
    proof -
      have "length t \<ge> length expected_columns"
        using True by (simp add: expected_columns_length)
      then show ?thesis
        by (simp only: collect_tables.simps if_True set_columns_six [OF True] sum.case
              getitem_year [OF True] select_rows_zip)
    qed
    from Cons.IH [OF ts h, of shown] True show ?thesis
      unfolding step by simp
  next
    case False
    with w have lt: "length t < 6" by simp
    have step: "collect_tables (t # ts) full shown =
       collect_tables ts full (shown @ [SkippedTableWarning t])"
    proof -
      have "\<not> length t \<ge> length expected_columns"
        using lt by (simp add: expected_columns_length)
      then show ?thesis by (simp only: collect_tables.simps if_False)
    qed
    from Cons.IH [OF ts Cons.prems(2), of "shown @ [SkippedTableWarning t]"] lt show ?thesis
      unfolding step by simp
  qed
qed

lemma str_match_d3_iff:
  "str_match_d3 s \<longleftrightarrow>
     (\<exists>a b d. re_digit a \<and> re_digit b \<and> re_digit d \<and> (s = [a, b, d] \<or> s = [a, b, d, 10]))"
  by (induction s rule: str_match_d3.induct) auto

lemma marker_not_digit_text: "str_match_d3 s \<Longrightarrow> \<not> str_contains summary_marker s"
  unfolding str_match_d3_iff by (auto simp: summary_marker_def)

lemma year_ok_iff: "year_ok c \<longleftrightarrow> str_match_d3 (astype_str c)"
  using marker_not_digit_text by (auto simp: year_ok_def)

lemma year_ok_not_Missing: "year_ok c \<Longrightarrow> c \<noteq> Missing"
  by (auto simp: year_ok_iff astype_str_def ascii_def re_digit_def Nd_runs_def)

lemma holds_rows_rows_of: "holds_rows fr rows \<Longrightarrow> rows_of (map snd fr) = rows"
  by (auto simp: holds_rows_def expected_columns_length)

lemma map_hd_map2_Cons: "length c = length rs \<Longrightarrow> map hd (map2 (#) c rs) = c"
  by (induction c rs rule: list_induct2) simp_all

lemma map_hd_rows_of: "rect n (c # cs) \<Longrightarrow> map hd (rows_of (c # cs)) = c"
proof (cases cs)
  case Nil then show ?thesis by (simp add: o_def)
next
  case (Cons d ds)
  assume "rect n (c # cs)"
  with Cons have r: "rect n (d # ds)" and l: "length c = n" by (auto simp: rect_def)
  have "length (rows_of (d # ds)) = n" using length_rows_of [OF _ r] by simp
  with l Cons show ?thesis by (simp only: rows_of.simps map_hd_map2_Cons)
qed

lemma length_all_missing_fold:
  "rect n (map snd df) \<Longrightarrow>
   length (foldr (\<lambda>(k, col) acc. map2 (\<and>) (map (\<lambda>c. c = Missing) col) acc) df
             (replicate n True)) = n"
  by (induction df) (auto simp: rect_def)

lemma select_all: "length keep = length xs \<Longrightarrow> list_all id keep \<Longrightarrow> select keep xs = xs"
  by (induction keep xs rule: list_induct2) simp_all

lemma dropna_all_collected:
  assumes "holds_rows fr rows" "list_all (\<lambda>r. year_ok (hd r)) rows"
  shows "dropna_all fr = fr"
  using assms(1) unfolding holds_rows_def
proof (elim disjE exE conjE)
  assume "fr = []"
  then show ?thesis by (simp add: dropna_all_def select_rows_def)
next
  fix cols n
  assume f: "fr = zip expected_columns cols" and l: "length cols = 6" and r: "rect n cols"
    and rw: "rows_of cols = rows"
  from l obtain c cs where cols: "cols = c # cs" by (cases cols) auto
  obtain e es where ex: "expected_columns = e # es"
    using expected_columns_length by (cases expected_columns) auto
  from r cols have lc: "length c = n" and rcs: "rect n cs" by (auto simp: rect_def)
  have "map hd rows = c" using map_hd_rows_of r cols rw by blast
  with assms(2) have nm: "list_all (\<lambda>x. x \<noteq> Missing) c"
    using year_ok_not_Missing by (fastforce simp: list_all_iff)
  have fr: "fr = (e, c) # zip es cs" unfolding f cols ex by simp
  have les: "length es = length cs" using l expected_columns_length unfolding cols ex by simp
  have nr: "nrows fr = n" using fr lc by (simp add: nrows_def)
  define rest where "rest = foldr (\<lambda>(k, col) acc. map2 (\<and>) (map (\<lambda>c. c = Missing) col) acc)
      (zip es cs) (replicate n True)"
  have lrest: "length rest = n"
    unfolding rest_def using rcs les by (intro length_all_missing_fold) simp
  have m: "all_missing_mask fr = map2 (\<and>) (map (\<lambda>c. c = Missing) c) rest"
    using nr unfolding all_missing_mask_def rest_def fr by simp
  have keep: "length (map Not (all_missing_mask fr)) = n \<and> list_all id (map Not (all_missing_mask fr))"
    unfolding m using lc lrest nm by (auto simp: list_all_iff set_zip)
  have "map (select (map Not (all_missing_mask fr))) cols = cols"
    using keep r by (intro map_idI) (auto simp: rect_def list_all_iff intro!: select_all)
  then show ?thesis
    unfolding dropna_all_def by (simp add: f select_rows_zip)
qed

lemmas table_simps = set_columns_def getitem_def select_rows_def pd_concat_def
  column_or_missing_def nrows_def year_ok_def astype_str_def expected_columns_def year_label_def
  term_label_def course_code_label_def course_name_label_def
  credits_label_def gpa_label_def ascii_def summary_marker_def re_digit_def Nd_runs_def

text \<open>
  Claim C5, as the code has it. Of the tables with six columns, the rows kept are
  exactly those whose academic year cell, as extracted and not stripped, reads as
  three decimal digits, or as three decimal digits and one line feed; such a text
  never contains the marker of the summary row. All other rows are dropped without
  a warning, and no kept row is removed afterwards as an empty one.
\<close>

theorem rows_kept_by_year_filter:
  assumes "list_all (\<lambda>t. length t \<le> 6 \<and> (\<exists>n. rect n t)) tbls"
  shows "(\<exists>fr. collect_tables tbls [] [] =
             (Inr fr, map SkippedTableWarning (filter (\<lambda>t. length t < 6) tbls)) \<and>
           dropna_all fr = fr \<and>
           rows_of (map snd fr) =
             concat (map (\<lambda>t. filter (\<lambda>r. str_match_d3 (astype_str (hd r))) (rows_of t))
                      (filter (\<lambda>t. length t = 6) tbls))) \<and>
         (\<forall>c. year_ok c = str_match_d3 (astype_str c)) \<and>
         (\<forall>s. str_match_d3 s =
            (\<exists>a b d. re_digit a \<and> re_digit b \<and> re_digit d \<and> (s = [a, b, d] \<or> s = [a, b, d, 10])))"
proof (intro conjI allI)
  have h0: "holds_rows [] []" by (simp add: holds_rows_def)
  from collect_tables_rows [OF assms h0, of "[]"] obtain fr where
    c: "collect_tables tbls [] [] =
          (Inr fr, map SkippedTableWarning (filter (\<lambda>t. length t < 6) tbls))"
    and h: "holds_rows fr (concat (map (\<lambda>t. filter (\<lambda>r. year_ok (hd r)) (rows_of t))
                                 (filter (\<lambda>t. length t = 6) tbls)))"
    by auto
  have a: "list_all (\<lambda>r. year_ok (hd r))
      (concat (map (\<lambda>t. filter (\<lambda>r. year_ok (hd r)) (rows_of t)) (filter (\<lambda>t. length t = 6) tbls)))"
    by (auto simp: list_all_iff)
  have "dropna_all fr = fr" using h a by (rule dropna_all_collected)
  moreover have "rows_of (map snd fr) =
      concat (map (\<lambda>t. filter (\<lambda>r. str_match_d3 (astype_str (hd r))) (rows_of t))
                      (filter (\<lambda>t. length t = 6) tbls))"
    using holds_rows_rows_of [OF h] by (simp only: year_ok_iff)
  ultimately show "\<exists>fr. collect_tables tbls [] [] =
             (Inr fr, map SkippedTableWarning (filter (\<lambda>t. length t < 6) tbls)) \<and>
           dropna_all fr = fr \<and>
           rows_of (map snd fr) =
             concat (map (\<lambda>t. filter (\<lambda>r. str_match_d3 (astype_str (hd r))) (rows_of t))
                      (filter (\<lambda>t. length t = 6) tbls))"
    using c by blast
next
  fix c show "year_ok c = str_match_d3 (astype_str c)" by (rule year_ok_iff)
next
  fix s show "str_match_d3 s =
            (\<exists>a b d. re_digit a \<and> re_digit b \<and> re_digit d \<and> (s = [a, b, d] \<or> s = [a, b, d, 10]))"
    by (rule str_match_d3_iff)
qed

theorem rows_kept_by_year_filter_witness:
  "list_all (\<lambda>t. length t \<le> 6 \<and> (\<exists>n. rect n t))
     [ [ [Text (ascii ''112''), Text (ascii ''abc''), Text (ascii '' 112''),
        Text (summary_marker @ ascii '':'')],
       [Text (ascii ''1''), Text (ascii ''1''), Text (ascii ''1''), Missing],
       [Text (ascii ''CS101''), Text (ascii ''CS102''), Text (ascii ''CS103''), Missing],
       [Text (ascii ''Intro''), Text (ascii ''Lab''), Text (ascii ''Logic''), Missing],
       [Text (ascii ''3''), Text (ascii ''1''), Text (ascii ''2''), Missing],
       [Text (ascii ''B''), Text (ascii ''A''), Text (ascii ''A''), Missing] ],
      [ [Text (ascii ''112'')], [Text (ascii ''1'')], [Text (ascii ''CS104'')],
       [Text (ascii ''3'')], [Text (ascii ''A'')] ] ] \<and>
   (\<exists>fr. collect_tables
     [ [ [Text (ascii ''112''), Text (ascii ''abc''), Text (ascii '' 112''),
        Text (summary_marker @ ascii '':'')],
       [Text (ascii ''1''), Text (ascii ''1''), Text (ascii ''1''), Missing],
       [Text (ascii ''CS101''), Text (ascii ''CS102''), Text (ascii ''CS103''), Missing],
       [Text (ascii ''Intro''), Text (ascii ''Lab''), Text (ascii ''Logic''), Missing],
       [Text (ascii ''3''), Text (ascii ''1''), Text (ascii ''2''), Missing],
       [Text (ascii ''B''), Text (ascii ''A''), Text (ascii ''A''), Missing] ],
      [ [Text (ascii ''112'')], [Text (ascii ''1'')], [Text (ascii ''CS104'')],
       [Text (ascii ''3'')], [Text (ascii ''A'')] ] ] [] []
     = (Inr fr,
        [SkippedTableWarning [ [Text (ascii ''112'')], [Text (ascii ''1'')], [Text (ascii ''CS104'')],
           [Text (ascii ''3'')], [Text (ascii ''A'')] ] ]) \<and>
     dropna_all fr = fr \<and>
     rows_of (map snd fr) =
       [ [Text (ascii ''112''), Text (ascii ''1''), Text (ascii ''CS101''), Text (ascii ''Intro''),
         Text (ascii ''3''), Text (ascii ''B'')] ])"
proof -
  let ?t6 = "[ [Text (ascii ''112''), Text (ascii ''abc''), Text (ascii '' 112''),
        Text (summary_marker @ ascii '':'')],
       [Text (ascii ''1''), Text (ascii ''1''), Text (ascii ''1''), Missing],
       [Text (ascii ''CS101''), Text (ascii ''CS102''), Text (ascii ''CS103''), Missing],
       [Text (ascii ''Intro''), Text (ascii ''Lab''), Text (ascii ''Logic''), Missing],
       [Text (ascii ''3''), Text (ascii ''1''), Text (ascii ''2''), Missing],
       [Text (ascii ''B''), Text (ascii ''A''), Text (ascii ''A''), Missing] ]"
  let ?t5 = "[ [Text (ascii ''112'')], [Text (ascii ''1'')], [Text (ascii ''CS104'')],
       [Text (ascii ''3'')], [Text (ascii ''A'')] ]"
  have h: "list_all (\<lambda>t. length t \<le> 6 \<and> (\<exists>n. rect n t)) [?t6, ?t5]"
    by (simp add: rect_def)
  have w: "map SkippedTableWarning (filter (\<lambda>t. length t < 6) [?t6, ?t5]) = [SkippedTableWarning ?t5]"
    by simp
  have r: "concat (map (\<lambda>t. filter (\<lambda>r. str_match_d3 (astype_str (hd r))) (rows_of t))
                      (filter (\<lambda>t. length t = 6) [?t6, ?t5])) =
       [ [Text (ascii ''112''), Text (ascii ''1''), Text (ascii ''CS101''), Text (ascii ''Intro''),
         Text (ascii ''3''), Text (ascii ''B'')] ]"
    by (simp add: astype_str_def ascii_def summary_marker_def re_digit_def Nd_runs_def)
  from rows_kept_by_year_filter [OF h, THEN conjunct1]
  show ?thesis unfolding w r using h by (intro conjI)
qed

text \<open>
  As first stated, with the cell stripped before the match, claim C5 fails: a cell
  that reads as three digits after a blank would be kept, and the loop drops its row.
\<close>

theorem padded_year_dropped_counterexample:
  "collect_tables
     [ [ [Text (ascii '' 112'')], [Text (ascii ''1'')], [Text (ascii ''CS101'')],
       [Text (ascii ''Intro'')], [Text (ascii ''3'')], [Text (ascii ''B'')] ] ] [] []
     = (Inr (map (\<lambda>k. (k, [])) expected_columns), []) \<and>
   spec_year_ok (Text (ascii '' 112''))"
  by (simp add: table_simps spec_year_ok_def strip_def isspace_def select_def)

lemma wider_table_raises:
  assumes "length t > 6"
  shows "collect_tables (t # ts) full shown = (Inl ValueError, shown)"
proof -
  have "length t \<ge> length expected_columns"
    using assms by (simp add: expected_columns_length)
  then show ?thesis
    by (simp only: collect_tables.simps if_True set_columns_wider [OF assms] sum.case)
qed

text \<open>
  Claim C4: a table of seven columns. The labels are the six expected ones, the
  assignment of line 101 raises, and the run ends with the error shown and no
  report, also for the table of six columns that follows.
\<close>

theorem seven_columns_abort_run:
  "collect_tables
     [ [ [Text (ascii ''112'')], [Text (ascii ''1'')], [Text (ascii ''CS101'')],
       [Text (ascii ''Intro'')], [Text (ascii ''3'')], [Text (ascii ''A'')], [Missing] ],
      [ [Text (ascii ''112'')], [Text (ascii ''1'')], [Text (ascii ''CS102'')],
       [Text (ascii ''Lab'')], [Text (ascii ''1'')], [Text (ascii ''B'')] ] ] [] []
     = (Inl ValueError, []) \<and>
   main int_literal
     [ [ [Text (ascii ''112'')], [Text (ascii ''1'')], [Text (ascii ''CS101'')],
       [Text (ascii ''Intro'')], [Text (ascii ''3'')], [Text (ascii ''A'')], [Missing] ],
      [ [Text (ascii ''112'')], [Text (ascii ''1'')], [Text (ascii ''CS102'')],
       [Text (ascii ''Lab'')], [Text (ascii ''1'')], [Text (ascii ''B'')] ] ]
     = [ErrorShown ValueError]"
  by (simp add: main_def set_columns_def expected_columns_def)

lemma end_to_end_scenario:
  "main int_literal
     [ [ [Text (ascii ''112''), Text (ascii ''112'')], [Text (ascii ''1''), Text (ascii ''1'')],
       [Text (ascii ''CS101''), Text (ascii ''CS102'')], [Text (ascii ''Intro''), Text (ascii ''Lab'')],
       [Text (ascii '' 3 ''), Text (ascii ''1'')], [Text (ascii ''A''), Text (ascii ''F'')] ] ]
   = [TotalCreditsMetric 3, RemainingCreditsMetric 125,
      PassedCourses
        [(year_label, [Str (ascii ''112'')]), (term_label, [Str (ascii ''1'')]),
         (course_name_label, [Str (ascii ''Intro'')]),
         (credits_label, [Num 3]), (gpa_label, [Str (ascii ''A'')])],
      ExtractedData
        [(year_label, [Str (ascii ''112''), Str (ascii ''112'')]),
         (term_label, [Str (ascii ''1''), Str (ascii ''1'')]),
         (course_code_label, [Str (ascii ''CS101''), Str (ascii ''CS102'')]),
         (course_name_label, [Str (ascii ''Intro''), Str (ascii ''Lab'')]),
         (credits_label, [Num 3, Num 1]), (gpa_label, [Str (ascii ''A''), Str (ascii ''F'')]),
         (gpa_numeric_label, [Num 4, Num 0]), (passed_label, [Flag True, Flag False])] ]"
  by (simp add: main_def table_simps dropna_all_def all_missing_mask_def strip_all_def frame_empty_def
        analyze_student_grades_def setitem_def select_def gpa_numeric_label_def passed_label_def
        GRADUATION_REQUIREMENT_def fillna_def int_literal_def digits_value_def strip_def isspace_def
        dict_get_def gpa_map_def Let_def to_numeric_simps column_dtype_def seen_float_def
        seen_uint_def seen_sint_def wrap_def)

end
